theory Spec2Isabelle
  imports Main
begin

unbundle bit_operations_syntax

text \<open>
  A shallow embedding of the constant folder of the SIL optimizer,
  \<^verbatim>\<open>lib/SILOptimizer/Utils/ConstantFolding.cpp\<close>: the numeric kernels, the folder
  of builtin instructions with its diagnostics, the pattern folder for
  comparisons, and the decision the driver takes for one user of a literal. A
  nullable \<^verbatim>\<open>SILValue\<close> is an \<open>option\<close>; the caller's optional flag and the
  diagnostics emitted are a state passed through every routine; what stops the
  program is a value of a sum type.
\<close>

section \<open>Arbitrary-width integers\<close>

text \<open>
  Modelled from the spec: the class \<^verbatim>\<open>llvm::APInt\<close> is library code that is not
  part of the source file. Sections 3 and 9 of the specification describe it: an
  integer whose bit width is a property of the value. A value is a width together
  with the unsigned reading of its bits; it is well formed when it has at least
  one bit and its unsigned reading is below \<open>2 ^ width\<close>.
\<close>

datatype APInt = APInt (getBitWidth: nat) (getZExtValue: nat)

definition wellFormed :: "APInt \<Rightarrow> bool" where
  "wellFormed x = (0 < getBitWidth x \<and> getZExtValue x < 2 ^ getBitWidth x)"

text \<open>
  Modelled from the spec: the class \<^verbatim>\<open>llvm::APInt\<close> is library code that is not
  part of the source file; the operations below follow the numeric kernel of
  section 4.1 of the specification (two's-complement values of a fixed width,
  truncation to the low bits, zero and sign extension, signed and unsigned
  comparison, division truncating towards zero).
  \<open>mkAPInt w k\<close> is the value of width \<open>w\<close> whose bits are those of \<open>k\<close>.
\<close>

definition mkAPInt :: "nat \<Rightarrow> int \<Rightarrow> APInt" where
  "mkAPInt w k = APInt w (nat (k mod 2 ^ w))"

definition isNegative :: "APInt \<Rightarrow> bool" where
  "isNegative x = (2 ^ getBitWidth x \<le> 2 * getZExtValue x)"

definition getSExtValue :: "APInt \<Rightarrow> int" where
  "getSExtValue x =
     (if isNegative x then int (getZExtValue x) - 2 ^ getBitWidth x
      else int (getZExtValue x))"

definition trunc :: "nat \<Rightarrow> APInt \<Rightarrow> APInt" where
  "trunc d x = APInt d (getZExtValue x mod 2 ^ d)"

definition zext :: "nat \<Rightarrow> APInt \<Rightarrow> APInt" where
  "zext d x = APInt d (getZExtValue x)"

definition sext :: "nat \<Rightarrow> APInt \<Rightarrow> APInt" where
  "sext d x = mkAPInt d (getSExtValue x)"

definition isMaxSignedValue :: "APInt \<Rightarrow> bool" where
  "isMaxSignedValue x = (getZExtValue x + 1 = 2 ^ (getBitWidth x - 1))"

definition isStrictlyPositive :: "APInt \<Rightarrow> bool" where
  "isStrictlyPositive x = (\<not> isNegative x \<and> getZExtValue x \<noteq> 0)"

definition ult :: "APInt \<Rightarrow> APInt \<Rightarrow> bool" where
  "ult x y = (getZExtValue x < getZExtValue y)"

definition ule :: "APInt \<Rightarrow> APInt \<Rightarrow> bool" where
  "ule x y = (getZExtValue x \<le> getZExtValue y)"

definition slt :: "APInt \<Rightarrow> APInt \<Rightarrow> bool" where
  "slt x y = (getSExtValue x < getSExtValue y)"

definition sle :: "APInt \<Rightarrow> APInt \<Rightarrow> bool" where
  "sle x y = (getSExtValue x \<le> getSExtValue y)"

text \<open>
  Modelled from the spec: bitwise operations and shifts of \<^verbatim>\<open>llvm::APInt\<close>
  (section 4.1, "Integer bit operations"). The shift count is read unsigned;
  the result keeps the width of the left operand.
\<close>

definition shl :: "APInt \<Rightarrow> APInt \<Rightarrow> APInt" where
  "shl x c = APInt (getBitWidth x)
     ((getZExtValue x * 2 ^ getZExtValue c) mod 2 ^ getBitWidth x)"

definition lshr :: "APInt \<Rightarrow> APInt \<Rightarrow> APInt" where
  "lshr x c = APInt (getBitWidth x) (getZExtValue x div 2 ^ getZExtValue c)"

definition ashr :: "APInt \<Rightarrow> APInt \<Rightarrow> APInt" where
  "ashr x c = mkAPInt (getBitWidth x) (getSExtValue x div 2 ^ getZExtValue c)"

definition bitAnd :: "APInt \<Rightarrow> APInt \<Rightarrow> APInt" where
  "bitAnd x y = APInt (getBitWidth x) (getZExtValue x AND getZExtValue y)"

definition bitOr :: "APInt \<Rightarrow> APInt \<Rightarrow> APInt" where
  "bitOr x y = APInt (getBitWidth x) (getZExtValue x OR getZExtValue y)"

definition bitXor :: "APInt \<Rightarrow> APInt \<Rightarrow> APInt" where
  "bitXor x y = APInt (getBitWidth x) (getZExtValue x XOR getZExtValue y)"

text \<open>
  Modelled from the spec: the checked arithmetic of \<^verbatim>\<open>llvm::APInt\<close>
  (\<^verbatim>\<open>sadd_ov\<close>, \<^verbatim>\<open>uadd_ov\<close>, \<^verbatim>\<open>ssub_ov\<close>, \<^verbatim>\<open>usub_ov\<close>, \<^verbatim>\<open>smul_ov\<close>, \<^verbatim>\<open>umul_ov\<close>)
  is library code that is not part of the source file. Section 4.1 ("Checked
  arithmetic") gives its contract: the result is computed in two's-complement
  modular arithmetic and the flag is set iff the mathematical result does not
  fit in the operand width under the given signedness. Each function returns the
  pair of the result and the flag that the C++ writes through \<^verbatim>\<open>bool &Overflow\<close>.
\<close>

definition fitsSigned :: "nat \<Rightarrow> int \<Rightarrow> bool" where
  "fitsSigned w k = (- (2 ^ (w - 1)) \<le> k \<and> k < 2 ^ (w - 1))"

definition fitsUnsigned :: "nat \<Rightarrow> int \<Rightarrow> bool" where
  "fitsUnsigned w k = (0 \<le> k \<and> k < 2 ^ w)"

definition checkedSigned :: "nat \<Rightarrow> int \<Rightarrow> APInt \<times> bool" where
  "checkedSigned w k = (mkAPInt w k, \<not> fitsSigned w k)"

definition checkedUnsigned :: "nat \<Rightarrow> int \<Rightarrow> APInt \<times> bool" where
  "checkedUnsigned w k = (mkAPInt w k, \<not> fitsUnsigned w k)"

definition sadd_ov :: "APInt \<Rightarrow> APInt \<Rightarrow> APInt \<times> bool" where
  "sadd_ov x y = checkedSigned (getBitWidth x) (getSExtValue x + getSExtValue y)"

definition uadd_ov :: "APInt \<Rightarrow> APInt \<Rightarrow> APInt \<times> bool" where
  "uadd_ov x y =
     checkedUnsigned (getBitWidth x) (int (getZExtValue x) + int (getZExtValue y))"

definition ssub_ov :: "APInt \<Rightarrow> APInt \<Rightarrow> APInt \<times> bool" where
  "ssub_ov x y = checkedSigned (getBitWidth x) (getSExtValue x - getSExtValue y)"

definition usub_ov :: "APInt \<Rightarrow> APInt \<Rightarrow> APInt \<times> bool" where
  "usub_ov x y =
     checkedUnsigned (getBitWidth x) (int (getZExtValue x) - int (getZExtValue y))"

definition smul_ov :: "APInt \<Rightarrow> APInt \<Rightarrow> APInt \<times> bool" where
  "smul_ov x y = checkedSigned (getBitWidth x) (getSExtValue x * getSExtValue y)"

definition umul_ov :: "APInt \<Rightarrow> APInt \<Rightarrow> APInt \<times> bool" where
  "umul_ov x y =
     checkedUnsigned (getBitWidth x) (int (getZExtValue x) * int (getZExtValue y))"

text \<open>
  Modelled from the spec: division of \<^verbatim>\<open>llvm::APInt\<close> (section 4.1, "Division").
  The signed quotient truncates towards zero and the remainder takes the sign of
  the dividend; \<^verbatim>\<open>sdiv_ov\<close> sets its flag iff the mathematical quotient does not
  fit. A zero divisor is excluded by the callers.
\<close>

definition truncDiv :: "int \<Rightarrow> int \<Rightarrow> int" where
  "truncDiv a b = sgn a * sgn b * (\<bar>a\<bar> div \<bar>b\<bar>)"

definition truncRem :: "int \<Rightarrow> int \<Rightarrow> int" where
  "truncRem a b = sgn a * (\<bar>a\<bar> mod \<bar>b\<bar>)"

definition udiv :: "APInt \<Rightarrow> APInt \<Rightarrow> APInt" where
  "udiv x y = APInt (getBitWidth x) (getZExtValue x div getZExtValue y)"

definition urem :: "APInt \<Rightarrow> APInt \<Rightarrow> APInt" where
  "urem x y = APInt (getBitWidth x) (getZExtValue x mod getZExtValue y)"

definition srem :: "APInt \<Rightarrow> APInt \<Rightarrow> APInt" where
  "srem x y = mkAPInt (getBitWidth x) (truncRem (getSExtValue x) (getSExtValue y))"

definition sdiv_ov :: "APInt \<Rightarrow> APInt \<Rightarrow> APInt \<times> bool" where
  "sdiv_ov x y =
     checkedSigned (getBitWidth x) (truncDiv (getSExtValue x) (getSExtValue y))"

text \<open>
  Modelled from the spec: \<^verbatim>\<open>APInt::countLeadingZeros\<close> (section 4.1,
  "Count-leading-zeros"): the width minus the number of significant bits.
\<close>

fun activeBits :: "nat \<Rightarrow> nat" where
  "activeBits n = (if n = 0 then 0 else Suc (activeBits (n div 2)))"

definition countLeadingZeros :: "APInt \<Rightarrow> nat" where
  "countLeadingZeros x = getBitWidth x - activeBits (getZExtValue x)"

declare activeBits.simps [simp del]

section \<open>Builtin kinds and types\<close>

text \<open>
  Modelled from the spec: the catalogue of builtin kinds comes from
  \<^verbatim>\<open>swift/AST/Builtins.def\<close>, which is not part of the source file; the kinds are
  those of section 6 of the specification. \<open>OtherBuiltin\<close> stands for every kind
  the folder has no case for.
\<close>

datatype BuiltinValueKind =
    Add | Sub | Mul | SDiv | SRem | UDiv | URem | ExactSDiv | ExactUDiv
  | And | Or | Xor | Shl | LShr | AShr
  | FAdd | FSub | FMul | FDiv | FRem
  | ICMP_EQ | ICMP_NE | ICMP_SLT | ICMP_SGT | ICMP_SLE | ICMP_SGE
  | ICMP_ULT | ICMP_UGT | ICMP_ULE | ICMP_UGE
  | SAddOver | UAddOver | SSubOver | USubOver | SMulOver | UMulOver
  | Trunc | ZExt | SExt | TruncOrBitCast | ZExtOrBitCast | SExtOrBitCast
  | SToSCheckedTrunc | UToUCheckedTrunc | SToUCheckedTrunc | UToSCheckedTrunc
  | SUCheckedConversion | USCheckedConversion
  | FPTrunc | IntToFPWithOverflow | FPToSI | FPToUI
  | AssumeNonNegative | AssertConf | CondUnreachable
  | OtherBuiltin

datatype Intrinsic =
    not_intrinsic | expect | ctlz
  | sadd_with_overflow | uadd_with_overflow
  | ssub_with_overflow | usub_with_overflow
  | smul_with_overflow | umul_with_overflow
  | other_intrinsic

datatype FPKind = IEEE16 | IEEE32 | IEEE64 | IEEE80 | IEEE128 | PPC128

datatype SILType =
    BuiltinIntegerType nat
  | BuiltinFloatType FPKind
  | TupleType "SILType list"
  | OtherType

text \<open>
  What stops the C++ instead of returning: \<^verbatim>\<open>llvm_unreachable\<close>, a failed
  \<^verbatim>\<open>castTo\<close>, an operand or type index that is out of range, and a failed
  \<^verbatim>\<open>assert\<close>. A function that can stop returns \<open>Inl\<close> of the reason, and
  \<open>andThen\<close> sequences two such computations.
\<close>

datatype Abort = Unreachable | BadCast | OutOfRange | AssertionFailed

definition andThen :: "Abort + 'a \<Rightarrow> ('a \<Rightarrow> Abort + 'b) \<Rightarrow> Abort + 'b" where
  "andThen m f = (case m of Inl e \<Rightarrow> Inl e | Inr x \<Rightarrow> f x)"

text \<open>\<^verbatim>\<open>Ty->castTo<BuiltinIntegerType>()->getGreatestWidth()\<close> for a fixed-width type.\<close>

fun getGreatestWidth :: "SILType \<Rightarrow> Abort + nat" where
  "getGreatestWidth (BuiltinIntegerType w) = Inr w"
| "getGreatestWidth _ = Inl BadCast"

fun castToFloat :: "SILType \<Rightarrow> Abort + FPKind" where
  "castToFloat (BuiltinFloatType k) = Inr k"
| "castToFloat _ = Inl BadCast"

text \<open>Indexing an operand or type array: out of range stops the program.\<close>

definition at :: "'a list \<Rightarrow> nat \<Rightarrow> Abort + 'a" where
  "at xs i = (if i < length xs then Inr (xs ! i) else Inl OutOfRange)"

section \<open>The numeric kernels of the folder\<close>

text \<open>\<^verbatim>\<open>swift::constantFoldBitOperation\<close>.\<close>

definition constantFoldBitOperation ::
  "APInt \<Rightarrow> APInt \<Rightarrow> BuiltinValueKind \<Rightarrow> Abort + APInt" where
  "constantFoldBitOperation lhs rhs ID =
     (case ID of
        And \<Rightarrow> Inr (bitAnd lhs rhs)
      | AShr \<Rightarrow> Inr (ashr lhs rhs)
      | LShr \<Rightarrow> Inr (lshr lhs rhs)
      | Or \<Rightarrow> Inr (bitOr lhs rhs)
      | Shl \<Rightarrow> Inr (shl lhs rhs)
      | Xor \<Rightarrow> Inr (bitXor lhs rhs)
      | _ \<Rightarrow> Inl Unreachable)"

text \<open>\<^verbatim>\<open>swift::constantFoldComparison\<close>: the result is the 1-bit value \<^verbatim>\<open>APInt(1, result)\<close>.\<close>

definition boolAPInt :: "bool \<Rightarrow> APInt" where
  "boolAPInt b = mkAPInt 1 (if b then 1 else 0)"

definition constantFoldComparison ::
  "APInt \<Rightarrow> APInt \<Rightarrow> BuiltinValueKind \<Rightarrow> Abort + APInt" where
  "constantFoldComparison lhs rhs ID =
     (case ID of
        ICMP_EQ \<Rightarrow> Inr (boolAPInt (lhs = rhs))
      | ICMP_NE \<Rightarrow> Inr (boolAPInt (lhs \<noteq> rhs))
      | ICMP_SLT \<Rightarrow> Inr (boolAPInt (slt lhs rhs))
      | ICMP_SGT \<Rightarrow> Inr (boolAPInt (slt rhs lhs))
      | ICMP_SLE \<Rightarrow> Inr (boolAPInt (sle lhs rhs))
      | ICMP_SGE \<Rightarrow> Inr (boolAPInt (sle rhs lhs))
      | ICMP_ULT \<Rightarrow> Inr (boolAPInt (ult lhs rhs))
      | ICMP_UGT \<Rightarrow> Inr (boolAPInt (ult rhs lhs))
      | ICMP_ULE \<Rightarrow> Inr (boolAPInt (ule lhs rhs))
      | ICMP_UGE \<Rightarrow> Inr (boolAPInt (ule rhs lhs))
      | _ \<Rightarrow> Inl Unreachable)"

text \<open>
  \<^verbatim>\<open>swift::constantFoldBinaryWithOverflow\<close> on values (the overload taking two
  \<^verbatim>\<open>APInt\<close>s): the pair of the result and of the flag written through
  \<^verbatim>\<open>bool &Overflow\<close>.
\<close>

definition constantFoldBinaryWithOverflow_APInt ::
  "APInt \<Rightarrow> APInt \<Rightarrow> Intrinsic \<Rightarrow> Abort + (APInt \<times> bool)" where
  "constantFoldBinaryWithOverflow_APInt lhs rhs ID =
     (case ID of
        sadd_with_overflow \<Rightarrow> Inr (sadd_ov lhs rhs)
      | uadd_with_overflow \<Rightarrow> Inr (uadd_ov lhs rhs)
      | ssub_with_overflow \<Rightarrow> Inr (ssub_ov lhs rhs)
      | usub_with_overflow \<Rightarrow> Inr (usub_ov lhs rhs)
      | smul_with_overflow \<Rightarrow> Inr (smul_ov lhs rhs)
      | umul_with_overflow \<Rightarrow> Inr (umul_ov lhs rhs)
      | _ \<Rightarrow> Inl Unreachable)"

text \<open>
  \<^verbatim>\<open>swift::constantFoldDiv\<close>. It asserts \<^verbatim>\<open>rhs != 0\<close>; for \<open>SRem\<close> the quotient is
  computed for its flag only.
\<close>

definition constantFoldDiv ::
  "APInt \<Rightarrow> APInt \<Rightarrow> BuiltinValueKind \<Rightarrow> Abort + (APInt \<times> bool)" where
  "constantFoldDiv lhs rhs ID =
     (if getZExtValue rhs = 0 then Inl AssertionFailed
      else case ID of
        SDiv \<Rightarrow> Inr (sdiv_ov lhs rhs)
      | SRem \<Rightarrow> Inr (srem lhs rhs, snd (sdiv_ov lhs rhs))
      | UDiv \<Rightarrow> Inr (udiv lhs rhs, False)
      | URem \<Rightarrow> Inr (urem lhs rhs, False)
      | _ \<Rightarrow> Inl Unreachable)"

text \<open>
  \<^verbatim>\<open>swift::constantFoldCast\<close>. The destination type is \<^verbatim>\<open>Types[1]\<close> when there are
  exactly two types and the null type otherwise, whose \<^verbatim>\<open>castTo\<close> stops the program.
\<close>

definition constantFoldCast ::
  "APInt \<Rightarrow> BuiltinValueKind \<Rightarrow> SILType list \<Rightarrow> Abort + APInt" where
  "constantFoldCast val ID Types =
     andThen (at Types 0) (\<lambda>SrcTy.
     andThen (if length Types = 2 then at Types 1 else Inl BadCast) (\<lambda>DestTy.
     andThen (getGreatestWidth SrcTy) (\<lambda>SrcBitWidth.
     andThen (getGreatestWidth DestTy) (\<lambda>DestBitWidth.
       if SrcBitWidth = DestBitWidth then Inr val
       else if ID = Trunc \<or> ID = TruncOrBitCast then Inr (trunc DestBitWidth val)
       else if ID = ZExt \<or> ID = ZExtOrBitCast then Inr (zext DestBitWidth val)
       else if ID = SExt \<or> ID = SExtOrBitCast then Inr (sext DestBitWidth val)
       else Inl Unreachable))))"

section \<open>Source locations and the syntax tree behind them\<close>

text \<open>
  Modelled from the spec: the syntax tree (\<^verbatim>\<open>swift/AST/Expr.h\<close>) and
  \<^verbatim>\<open>SILLocation\<close> are not part of the source file. The folder only asks a location
  for the expression it came from and reads that expression's dynamic class, its
  implicit mark, its callee, its argument, its type and, for a float literal, its
  sign and digits. Types are kept in canonical form; a nominal type carries the
  name of its declaration.
\<close>

datatype ASTType =
    NominalType string
  | InOutType ASTType
  | ASTTupleType "ASTType list"

datatype ApplyKind = CallExprKind | ConstructorRefCallExprKind | OtherApplyKind

datatype Expr =
    ApplyExpr ApplyKind bool Expr Expr ASTType
  | TupleExpr "Expr list" ASTType
  | FloatLiteralExpr bool string ASTType
  | OtherExpr ASTType

datatype SILLocation = SILLocation (sourceLocIsValid: bool) (getASTNode: "Expr option")

fun getType :: "Expr \<Rightarrow> ASTType" where
  "getType (ApplyExpr k implicit fn arg ty) = ty"
| "getType (TupleExpr es ty) = ty"
| "getType (FloatLiteralExpr neg digits ty) = ty"
| "getType (OtherExpr ty) = ty"

fun getInOutObjectType :: "ASTType \<Rightarrow> ASTType" where
  "getInOutObjectType (InOutType t) = t"
| "getInOutObjectType t = t"

fun getAnyNominal :: "ASTType \<Rightarrow> string option" where
  "getAnyNominal (NominalType n) = Some n"
| "getAnyNominal _ = None"

text \<open>\<^verbatim>\<open>dyn_cast<ConstructorRefCallExpr>(e)\<close> succeeds.\<close>

fun isConstructorRefCallExpr :: "Expr \<Rightarrow> bool" where
  "isConstructorRefCallExpr (ApplyExpr k implicit fn arg ty) = (k = ConstructorRefCallExprKind)"
| "isConstructorRefCallExpr _ = False"

text \<open>\<^verbatim>\<open>Loc.getAsASTNode<ApplyExpr>()\<close> and \<^verbatim>\<open>Loc.getAsASTNode<CallExpr>()\<close>.\<close>

fun getAsApplyExpr :: "SILLocation \<Rightarrow> Expr option" where
  "getAsApplyExpr (SILLocation valid (Some (ApplyExpr k implicit fn arg ty))) =
     Some (ApplyExpr k implicit fn arg ty)"
| "getAsApplyExpr _ = None"

fun getAsCallExpr :: "SILLocation \<Rightarrow> Expr option" where
  "getAsCallExpr (SILLocation valid (Some (ApplyExpr k implicit fn arg ty))) =
     (if k = CallExprKind then Some (ApplyExpr k implicit fn arg ty) else None)"
| "getAsCallExpr _ = None"

text \<open>
  The AST context: all the folder reads from it is the declaration of the
  standard library's \<open>Double\<close>, which is absent when the library is not loaded.
\<close>

datatype ASTContext = ASTContext (getDoubleDecl: "string option")

section \<open>Diagnostics\<close>

text \<open>
  A diagnostic is recorded by its kind; its arguments, its position and its
  highlights are not modelled. The state threaded through the folder is the
  caller's \<^verbatim>\<open>Optional<bool> &ResultsInError\<close> together with the diagnostics
  emitted so far, oldest first.
\<close>

datatype Diag =
    arithmetic_operation_overflow
  | arithmetic_operation_overflow_generic_type
  | division_by_zero
  | division_overflow
  | shifting_all_significant_bits
  | integer_literal_overflow
  | negative_integer_literal_overflow_unsigned
  | integer_literal_overflow_builtin_types
  | integer_conversion_overflow
  | integer_conversion_overflow_builtin_types
  | integer_conversion_sign_error
  | integer_literal_overflow_warn
  | integer_conversion_overflow_warn
  | warning_int_to_fp_inexact
  | warning_float_trunc_overflow
  | warning_float_trunc_underflow
  | warning_float_trunc_hex_inexact
  | warning_float_overflows_maxbuiltin
  | negative_fp_literal_overflow_unsigned
  | float_to_int_overflow
  | wrong_non_negative_assumption

record DiagState =
  ResultsInError :: "bool option"
  Diags :: "Diag list"

definition diagnose :: "Diag \<Rightarrow> DiagState \<Rightarrow> DiagState" where
  "diagnose d st = st\<lparr>Diags := Diags st @ [d]\<rparr>"

text \<open>A diagnostic followed by \<^verbatim>\<open>ResultsInError = Optional<bool>(true)\<close>.\<close>

definition diagnoseError :: "Diag \<Rightarrow> DiagState \<Rightarrow> DiagState" where
  "diagnoseError d st = (diagnose d st)\<lparr>ResultsInError := Some True\<rparr>"

section \<open>Floating-point values\<close>

text \<open>
  The class \<^verbatim>\<open>llvm::APFloat\<close> is library code that is not part of the source
  file, and the specification leaves IEEE rounding to it. A float value is kept as
  its format and its bit pattern, and every \<^verbatim>\<open>APFloat\<close> operation the folder
  calls is a field of a parameter of the model. A status is the set of the flags
  raised; \<^verbatim>\<open>opOK\<close> is the empty set.
\<close>

datatype APFloat = APFloat (getSemantics: FPKind) (bitPattern: nat)

datatype opFlag = opInvalidOp | opDivByZero | opOverflow | opUnderflow | opInexact

type_synonym opStatus = "opFlag set"

record APFloatOps =
  fadd :: "APFloat \<Rightarrow> APFloat \<Rightarrow> APFloat"
  fsubtract :: "APFloat \<Rightarrow> APFloat \<Rightarrow> APFloat"
  fmultiply :: "APFloat \<Rightarrow> APFloat \<Rightarrow> APFloat"
  fdivide :: "APFloat \<Rightarrow> APFloat \<Rightarrow> APFloat"
  convert :: "APFloat \<Rightarrow> FPKind \<Rightarrow> opStatus \<times> APFloat"
  convertFromAPInt :: "FPKind \<Rightarrow> APInt \<Rightarrow> opStatus \<times> APFloat"
  convertToInteger :: "APFloat \<Rightarrow> nat \<Rightarrow> bool \<Rightarrow> opStatus \<times> APInt"
  isNaN :: "APFloat \<Rightarrow> bool"
  isZero :: "APFloat \<Rightarrow> bool"
  isInfinity :: "APFloat \<Rightarrow> bool"
  isDenormal :: "APFloat \<Rightarrow> bool"
  isNegativeFP :: "APFloat \<Rightarrow> bool"
  ilogb :: "APFloat \<Rightarrow> int"
  bitcastToAPInt :: "APFloat \<Rightarrow> APInt"

section \<open>Instructions\<close>

text \<open>
  Modelled from the spec: the instruction classes (\<^verbatim>\<open>swift/SIL/SILInstruction.h\<close>)
  are not part of the source file; section 3 of the specification gives the data
  model. An instruction is a tree whose operands are the instructions defining
  them. A builtin call carries its location, its result type, whether its function
  is a specialization, the intrinsic and the builtin kind its name resolves to, and
  its type arguments; \<open>OtherValue\<close> is any value that is none of the others
  (a function argument, a load).
\<close>

record BuiltinHeader =
  getLoc :: SILLocation
  getTy :: SILType
  isSpecialization :: bool
  getIntrinsicID :: Intrinsic
  getID :: BuiltinValueKind
  getTypes :: "SILType list"

datatype SILValue =
    IntegerLiteralInst SILType APInt
  | FloatLiteralInst SILLocation SILType APFloat
  | BuiltinInst BuiltinHeader "SILValue list"
  | TupleInst SILType "SILValue list"
  | TupleExtractInst SILValue nat
  | StructInst "(string \<times> SILValue) list"
  | StructExtractInst SILValue string
  | IndexingInst SILValue SILValue
  | OtherValue nat

text \<open>\<^verbatim>\<open>dyn_cast<IntegerLiteralInst>(V)\<close> and \<^verbatim>\<open>dyn_cast<FloatLiteralInst>(V)\<close>.\<close>

fun asIntegerLiteral :: "SILValue \<Rightarrow> (SILType \<times> APInt) option" where
  "asIntegerLiteral (IntegerLiteralInst ty v) = Some (ty, v)"
| "asIntegerLiteral _ = None"

fun asFloatLiteral :: "SILValue \<Rightarrow> (SILLocation \<times> SILType \<times> APFloat) option" where
  "asFloatLiteral (FloatLiteralInst loc ty v) = Some (loc, ty, v)"
| "asFloatLiteral _ = None"

text \<open>
  Modelled from the spec: \<^verbatim>\<open>SILBuilder\<close> is not part of the source file. By
  invariant 1 of section 3 a literal carries a value of the width of its type:
  \<^verbatim>\<open>createIntegerLiteral\<close> with an \<^verbatim>\<open>APInt\<close> stores the value, and its overload
  with a machine integer builds the value at the width of the literal's type.
\<close>

definition createIntegerLiteral :: "SILType \<Rightarrow> APInt \<Rightarrow> SILValue" where
  "createIntegerLiteral ty v = IntegerLiteralInst ty v"

definition createIntegerLiteralOfInt :: "SILType \<Rightarrow> int \<Rightarrow> Abort + SILValue" where
  "createIntegerLiteralOfInt ty k =
     andThen (getGreatestWidth ty) (\<lambda>w. Inr (IntegerLiteralInst ty (mkAPInt w k)))"

text \<open>What a folding routine hands back: the replacement, if any, and the state.\<close>

type_synonym FoldResult = "Abort + (SILValue option \<times> DiagState)"

section \<open>Checked arithmetic on instructions\<close>

text \<open>
  \<^verbatim>\<open>constructResultWithOverflowTuple\<close>: the instruction's type must be a tuple
  type of two elements; the folded instruction is the tuple of the result literal
  and of the overflow literal, each at its element type.
\<close>

definition constructResultWithOverflowTuple ::
  "BuiltinHeader \<Rightarrow> APInt \<Rightarrow> bool \<Rightarrow> Abort + SILValue" where
  "constructResultWithOverflowTuple BI Res Overflow =
     (case getTy BI of
        TupleType [ResTy1, ResTy2] \<Rightarrow>
          andThen (createIntegerLiteralOfInt ResTy2 (if Overflow then 1 else 0)) (\<lambda>Ov.
            Inr (TupleInst (getTy BI) [createIntegerLiteral ResTy1 Res, Ov]))
      | TupleType tys \<Rightarrow> Inl AssertionFailed
      | _ \<Rightarrow> Inl BadCast)"

text \<open>
  The type of the operands as the user wrote them, in
  \<^verbatim>\<open>constantFoldBinaryWithOverflow\<close>: the location is an apply expression whose
  argument is a tuple of two expressions of the same canonical type, the left one
  looked at through \<^verbatim>\<open>inout\<close>.
\<close>

definition inferOpType :: "SILLocation \<Rightarrow> ASTType option" where
  "inferOpType Loc =
     (case getAsApplyExpr Loc of
        Some (ApplyExpr k implicit fn (TupleExpr [lhs, rhs] aty) ty) \<Rightarrow>
          if getInOutObjectType (getType lhs) = getType rhs then Some (getType rhs)
          else None
      | _ \<Rightarrow> None)"

text \<open>
  \<^verbatim>\<open>constantFoldBinaryWithOverflow\<close>, the overload on a builtin instruction and
  an intrinsic. After a diagnostic the function goes on to build the tuple; only a
  specialization returns early.
\<close>

definition constantFoldBinaryWithOverflow_Intrinsic ::
  "BuiltinHeader \<Rightarrow> SILValue list \<Rightarrow> Intrinsic \<Rightarrow> bool \<Rightarrow> DiagState \<Rightarrow> FoldResult" where
  "constantFoldBinaryWithOverflow_Intrinsic BI Args ID ReportOverflow st =
     (if length Args < 2 then Inl AssertionFailed
      else case (asIntegerLiteral (Args ! 0), asIntegerLiteral (Args ! 1)) of
        (Some (ty1, LHSInt), Some (ty2, RHSInt)) \<Rightarrow>
          andThen (constantFoldBinaryWithOverflow_APInt LHSInt RHSInt ID) (\<lambda>(Res, Overflow).
            if ResultsInError st \<noteq> None \<and> Overflow \<and> ReportOverflow then
              if isSpecialization BI then Inr (None, st)
              else
                andThen (constructResultWithOverflowTuple BI Res Overflow) (\<lambda>T.
                  Inr (Some T,
                       diagnoseError
                         (if inferOpType (getLoc BI) \<noteq> None
                          then arithmetic_operation_overflow
                          else arithmetic_operation_overflow_generic_type) st))
            else
              andThen (constructResultWithOverflowTuple BI Res Overflow) (\<lambda>T.
                Inr (Some T, st)))
      | _ \<Rightarrow> Inr (None, st))"

text \<open>
  Modelled from the spec: \<^verbatim>\<open>getLLVMIntrinsicIDForBuiltinWithOverflow\<close> lives in
  \<^verbatim>\<open>lib/AST/Builtins.cpp\<close>, which is not part of the source file; section 6 pairs
  the six checked builtins with the six intrinsics of the same names.
\<close>

definition getLLVMIntrinsicIDForBuiltinWithOverflow ::
  "BuiltinValueKind \<Rightarrow> Abort + Intrinsic" where
  "getLLVMIntrinsicIDForBuiltinWithOverflow ID =
     (case ID of
        SAddOver \<Rightarrow> Inr sadd_with_overflow
      | UAddOver \<Rightarrow> Inr uadd_with_overflow
      | SSubOver \<Rightarrow> Inr ssub_with_overflow
      | USubOver \<Rightarrow> Inr usub_with_overflow
      | SMulOver \<Rightarrow> Inr smul_with_overflow
      | UMulOver \<Rightarrow> Inr umul_with_overflow
      | _ \<Rightarrow> Inl Unreachable)"

text \<open>
  \<^verbatim>\<open>constantFoldBinaryWithOverflow\<close>, the overload on a builtin kind: the third
  operand is the report flag, set when it is the literal 1.
\<close>

definition constantFoldBinaryWithOverflow_Builtin ::
  "BuiltinHeader \<Rightarrow> SILValue list \<Rightarrow> BuiltinValueKind \<Rightarrow> DiagState \<Rightarrow> FoldResult" where
  "constantFoldBinaryWithOverflow_Builtin BI Args ID st =
     andThen (at Args 2) (\<lambda>Flag.
     andThen (getLLVMIntrinsicIDForBuiltinWithOverflow ID) (\<lambda>IID.
       constantFoldBinaryWithOverflow_Intrinsic BI Args IID
         (case asIntegerLiteral Flag of
            Some (ty, v) \<Rightarrow> getZExtValue v = 1
          | None \<Rightarrow> False) st))"

text \<open>\<^verbatim>\<open>constantFoldIntrinsic\<close>.\<close>

definition constantFoldIntrinsic ::
  "BuiltinHeader \<Rightarrow> SILValue list \<Rightarrow> Intrinsic \<Rightarrow> DiagState \<Rightarrow> FoldResult" where
  "constantFoldIntrinsic BI Args ID st =
     (if ID = expect then
        if length Args \<noteq> 2 then Inl AssertionFailed
        else (case asIntegerLiteral (Args ! 0) of
                None \<Rightarrow> Inr (None, st)
              | Some (ty, v) \<Rightarrow> Inr (Some (Args ! 0), st))
      else if ID = ctlz then
        if length Args \<noteq> 2 then Inl AssertionFailed
        else (case asIntegerLiteral (Args ! 0) of
                None \<Rightarrow> Inr (None, st)
              | Some (ty, LHSI) \<Rightarrow>
                  if getZExtValue LHSI = 0 then
                    (case asIntegerLiteral (Args ! 1) of
                       None \<Rightarrow> Inr (None, st)
                     | Some (rty, RHSI) \<Rightarrow>
                         if getZExtValue RHSI \<noteq> 0 then Inr (None, st)
                         else Inr (Some (createIntegerLiteral ty
                                (mkAPInt (getBitWidth LHSI) (int (getBitWidth LHSI)))), st))
                  else Inr (Some (createIntegerLiteral ty
                         (mkAPInt (getBitWidth LHSI) (int (countLeadingZeros LHSI)))), st))
      else if ID = sadd_with_overflow \<or> ID = uadd_with_overflow
            \<or> ID = ssub_with_overflow \<or> ID = usub_with_overflow
            \<or> ID = smul_with_overflow \<or> ID = umul_with_overflow then
        constantFoldBinaryWithOverflow_Intrinsic BI Args ID False st
      else Inr (None, st))"

section \<open>Comparisons and the pattern folder\<close>

text \<open>
  Modelled from the spec: the matchers of \<^verbatim>\<open>swift/SIL/PatternMatch.h\<close> are not part
  of the source file. \<^verbatim>\<open>m_Zero\<close> and \<^verbatim>\<open>m_One\<close> match an integer literal of that
  value; \<^verbatim>\<open>m_BuiltinInst(kind, p, q)\<close> matches a builtin of that kind whose two
  operands match \<open>p\<close> and \<open>q\<close>; \<^verbatim>\<open>m_CombineOr\<close> takes the first alternative that
  matches (section 4.3 of the specification).
\<close>

fun m_Zero :: "SILValue \<Rightarrow> bool" where
  "m_Zero (IntegerLiteralInst ty v) = (getZExtValue v = 0)"
| "m_Zero _ = False"

fun m_One :: "SILValue \<Rightarrow> bool" where
  "m_One (IntegerLiteralInst ty v) = (getZExtValue v = 1)"
| "m_One _ = False"

text \<open>\<^verbatim>\<open>MatchNonNegative\<close>: a builtin \<open>AssumeNonNegative\<close> of any one operand.\<close>

definition MatchNonNegative :: "SILValue \<Rightarrow> bool" where
  "MatchNonNegative V =
     (case V of BuiltinInst h [x] \<Rightarrow> getID h = AssumeNonNegative | _ \<Rightarrow> False)"

text \<open>A logical shift right by a literal, strictly positive count.\<close>

definition matchLShrByPositive :: "SILValue \<Rightarrow> bool" where
  "matchLShrByPositive V =
     (case V of
        BuiltinInst h [x, IntegerLiteralInst ty ShiftCount] \<Rightarrow>
          getID h = LShr \<and> isStrictlyPositive ShiftCount
      | _ \<Rightarrow> False)"

definition m_CombineOr :: "'a option \<Rightarrow> 'a option \<Rightarrow> 'a option" where
  "m_CombineOr p q = (case p of Some x \<Rightarrow> Some x | None \<Rightarrow> q)"

text \<open>
  A builtin of kind \<open>K\<close> with a literal on the left (right) and anything on the
  other side: the literal's value and the other operand.
\<close>

definition matchLiteralLeft ::
  "BuiltinValueKind \<Rightarrow> BuiltinValueKind \<Rightarrow> SILValue list \<Rightarrow> (APInt \<times> SILValue) option" where
  "matchLiteralLeft K ID Args =
     (case Args of
        [IntegerLiteralInst ty v, Other] \<Rightarrow> if ID = K then Some (v, Other) else None
      | _ \<Rightarrow> None)"

definition matchLiteralRight ::
  "BuiltinValueKind \<Rightarrow> BuiltinValueKind \<Rightarrow> SILValue list \<Rightarrow> (APInt \<times> SILValue) option" where
  "matchLiteralRight K ID Args =
     (case Args of
        [Other, IntegerLiteralInst ty v] \<Rightarrow> if ID = K then Some (v, Other) else None
      | _ \<Rightarrow> None)"

text \<open>The two comparisons with zero that are false, and the two that are true.\<close>

definition matchFalseAgainstZero :: "BuiltinValueKind \<Rightarrow> SILValue list \<Rightarrow> bool" where
  "matchFalseAgainstZero ID Args =
     (case Args of
        [a, b] \<Rightarrow>
          (ID = ICMP_ULT \<and> m_Zero b) \<or> (ID = ICMP_UGT \<and> m_Zero a)
          \<or> (ID = ICMP_SLT \<and> MatchNonNegative a \<and> m_Zero b)
          \<or> (ID = ICMP_SGT \<and> m_Zero a \<and> MatchNonNegative b)
      | _ \<Rightarrow> False)"

definition matchTrueAgainstZero :: "BuiltinValueKind \<Rightarrow> SILValue list \<Rightarrow> bool" where
  "matchTrueAgainstZero ID Args =
     (case Args of
        [a, b] \<Rightarrow>
          (ID = ICMP_UGE \<and> m_Zero b) \<or> (ID = ICMP_ULE \<and> m_Zero a)
          \<or> (ID = ICMP_SGE \<and> MatchNonNegative a \<and> m_Zero b)
          \<or> (ID = ICMP_SLE \<and> m_Zero a \<and> MatchNonNegative b)
      | _ \<Rightarrow> False)"

text \<open>
  The signed comparison of the value component of a checked unsigned operation
  with zero: \<open>K\<close> applied to \<^verbatim>\<open>tuple_extract(builtin, 0)\<close> and a zero literal, where
  the builtin is \<open>UAddOver\<close>, \<open>USubOver\<close> or \<open>UMulOver\<close> and its third operand is the
  literal 1.
\<close>

definition matchCheckedUnsignedAgainstZero ::
  "BuiltinValueKind \<Rightarrow> BuiltinValueKind \<Rightarrow> SILValue list \<Rightarrow> Abort + bool" where
  "matchCheckedUnsignedAgainstZero K ID Args =
     (case Args of
        [TupleExtractInst (BuiltinInst BIOp Ops) FieldNo, z] \<Rightarrow>
          if ID = K \<and> FieldNo = 0 \<and> m_Zero z then
            if getID BIOp = UAddOver \<or> getID BIOp = USubOver \<or> getID BIOp = UMulOver
            then andThen (at Ops 2) (\<lambda>Flag. Inr (m_One Flag))
            else Inr False
          else Inr False
      | _ \<Rightarrow> Inr False)"

text \<open>The literal of a matched comparison is its type-max, for the four groups.\<close>

definition matchIntMax ::
  "(APInt \<times> SILValue) option \<Rightarrow> bool" where
  "matchIntMax m = (case m of Some (IntMax, Other) \<Rightarrow> isMaxSignedValue IntMax | None \<Rightarrow> False)"

definition matchIntMaxOfShift ::
  "(APInt \<times> SILValue) option \<Rightarrow> bool" where
  "matchIntMaxOfShift m =
     (case m of
        Some (IntMax, Other) \<Rightarrow> isMaxSignedValue IntMax \<and> matchLShrByPositive Other
      | None \<Rightarrow> False)"

text \<open>
  \<^verbatim>\<open>constantFoldCompare\<close>. \<^verbatim>\<open>APInt()\<close> is the 1-bit zero and \<^verbatim>\<open>APInt(1, 1)\<close> the
  1-bit one. The function takes no results-in-error flag and emits nothing.
\<close>

definition constantFoldCompare ::
  "BuiltinHeader \<Rightarrow> SILValue list \<Rightarrow> BuiltinValueKind \<Rightarrow> Abort + SILValue option" where
  "constantFoldCompare BI Args ID =
     (let foldFalse = Inr (Some (createIntegerLiteral (getTy BI) (APInt 1 0)));
          foldTrue = Inr (Some (createIntegerLiteral (getTy BI) (mkAPInt 1 1)))
      in
      if length Args < 2 then Inl OutOfRange
      else case (asIntegerLiteral (Args ! 0), asIntegerLiteral (Args ! 1)) of
        (Some (lty, LHS), Some (rty, RHS)) \<Rightarrow>
          andThen (constantFoldComparison LHS RHS ID) (\<lambda>Res.
            Inr (Some (createIntegerLiteral (getTy BI) Res)))
      | _ \<Rightarrow>
        if matchFalseAgainstZero ID Args then foldFalse
        else if matchTrueAgainstZero ID Args then foldTrue
        else if matchIntMax (m_CombineOr (matchLiteralLeft ICMP_SLT ID Args)
                                         (matchLiteralRight ICMP_SGT ID Args)) then foldFalse
        else if matchIntMax (m_CombineOr (matchLiteralLeft ICMP_SGE ID Args)
                                         (matchLiteralRight ICMP_SLE ID Args)) then foldTrue
        else if matchIntMaxOfShift
                  (m_CombineOr (matchLiteralLeft ICMP_UGE ID Args)
                  (m_CombineOr (matchLiteralRight ICMP_ULE ID Args)
                  (m_CombineOr (matchLiteralLeft ICMP_SGE ID Args)
                               (matchLiteralRight ICMP_SLE ID Args)))) then foldTrue
        else if matchIntMaxOfShift
                  (m_CombineOr (matchLiteralLeft ICMP_ULT ID Args)
                  (m_CombineOr (matchLiteralRight ICMP_UGT ID Args)
                  (m_CombineOr (matchLiteralLeft ICMP_SLT ID Args)
                               (matchLiteralRight ICMP_SGT ID Args)))) then foldFalse
        else
          andThen (matchCheckedUnsignedAgainstZero ICMP_SLT ID Args) (\<lambda>m1.
            if m1 then foldFalse
            else andThen (matchCheckedUnsignedAgainstZero ICMP_SGE ID Args) (\<lambda>m2.
              if m2 then foldTrue else Inr None)))"

section \<open>Division, bit operations and float arithmetic\<close>

text \<open>\<^verbatim>\<open>constantFoldAndCheckDivision\<close>.\<close>

definition constantFoldAndCheckDivision ::
  "BuiltinHeader \<Rightarrow> SILValue list \<Rightarrow> BuiltinValueKind \<Rightarrow> DiagState \<Rightarrow> FoldResult" where
  "constantFoldAndCheckDivision BI Args ID st =
     (if \<not> (ID = SDiv \<or> ID = SRem \<or> ID = UDiv \<or> ID = URem) then Inl AssertionFailed
      else
        andThen (at Args 1) (\<lambda>Denom.
          case asIntegerLiteral Denom of
            None \<Rightarrow> Inr (None, st)
          | Some (dty, DenomVal) \<Rightarrow>
              if getZExtValue DenomVal = 0 then
                if ResultsInError st = None then Inr (None, st)
                else Inr (None, diagnoseError division_by_zero st)
              else
                andThen (at Args 0) (\<lambda>Num.
                  case asIntegerLiteral Num of
                    None \<Rightarrow> Inr (None, st)
                  | Some (nty, NumVal) \<Rightarrow>
                      andThen (constantFoldDiv NumVal DenomVal ID) (\<lambda>(ResVal, Overflowed).
                        if Overflowed then
                          if ResultsInError st = None then Inr (None, st)
                          else Inr (None, diagnoseError division_overflow st)
                        else Inr (Some (createIntegerLiteral (getTy BI) ResVal), st)))))"

text \<open>
  \<^verbatim>\<open>constantFoldBinary\<close>. The shift branch emits its diagnostic and sets the flag
  without looking at whether the flag is present.
\<close>

definition constantFoldBinary ::
  "APFloatOps \<Rightarrow> BuiltinHeader \<Rightarrow> SILValue list \<Rightarrow> BuiltinValueKind \<Rightarrow> DiagState
     \<Rightarrow> FoldResult" where
  "constantFoldBinary fp BI Args ID st =
     (if ID = ExactSDiv \<or> ID = ExactUDiv then Inr (None, st)
      else if ID = FRem then Inr (None, st)
      else if ID = SDiv \<or> ID = SRem \<or> ID = UDiv \<or> ID = URem then
        constantFoldAndCheckDivision BI Args ID st
      else if ID = Add \<or> ID = Mul \<or> ID = Sub then Inr (None, st)
      else if ID = And \<or> ID = AShr \<or> ID = LShr \<or> ID = Or \<or> ID = Shl \<or> ID = Xor then
        andThen (at Args 0) (\<lambda>A0.
        andThen (at Args 1) (\<lambda>A1.
          case (asIntegerLiteral A0, asIntegerLiteral A1) of
            (Some (lty, LHSI), Some (rty, RHSI)) \<Rightarrow>
              if (ID = AShr \<or> ID = LShr \<or> ID = Shl) \<and> getBitWidth LHSI \<le> getZExtValue RHSI
              then Inr (None, diagnoseError shifting_all_significant_bits st)
              else
                andThen (constantFoldBitOperation LHSI RHSI ID) (\<lambda>ResI.
                  Inr (Some (createIntegerLiteral (getTy BI) ResI), st))
          | _ \<Rightarrow> Inr (None, st)))
      else if ID = FAdd \<or> ID = FDiv \<or> ID = FMul \<or> ID = FSub then
        andThen (at Args 0) (\<lambda>A0.
        andThen (at Args 1) (\<lambda>A1.
          case (asFloatLiteral A0, asFloatLiteral A1) of
            (Some (lloc, lty, LHSF), Some (rloc, rty, RHSF)) \<Rightarrow>
              Inr (Some (FloatLiteralInst (getLoc BI) (getTy BI)
                    ((if ID = FAdd then fadd fp
                      else if ID = FDiv then fdivide fp
                      else if ID = FMul then fmultiply fp
                      else fsubtract fp) LHSF RHSF)), st)
          | _ \<Rightarrow> Inr (None, st)))
      else Inl Unreachable)"

section \<open>Checked integer conversions\<close>

text \<open>\<^verbatim>\<open>getTypeSignedness\<close>: the signedness of the source and of the destination.\<close>

definition getTypeSignedness :: "BuiltinValueKind \<Rightarrow> bool \<times> bool" where
  "getTypeSignedness ID =
     (ID = SToSCheckedTrunc \<or> ID = SToUCheckedTrunc \<or> ID = SUCheckedConversion,
      ID = SToSCheckedTrunc \<or> ID = UToSCheckedTrunc \<or> ID = USCheckedConversion)"

text \<open>
  The block of \<^verbatim>\<open>constantFoldAndCheckIntegerConversions\<close> that computes
  \<^verbatim>\<open>Result\<close> and \<^verbatim>\<open>OverflowError\<close> (source lines 713 to 751). The extension
  back to the source width is a sign extension for \<open>SToSCheckedTrunc\<close> only;
  \<open>UToSCheckedTrunc\<close> truncates to one bit less than the destination and
  zero-extends.
\<close>

definition checkedConversion ::
  "BuiltinValueKind \<Rightarrow> SILType list \<Rightarrow> APInt \<Rightarrow> nat \<Rightarrow> Abort + (APInt \<times> bool)" where
  "checkedConversion ID Types SrcVal SrcBitWidth =
     (if ID = SUCheckedConversion \<or> ID = USCheckedConversion then
        Inr (SrcVal, isNegative SrcVal)
      else if ID \<noteq> UToSCheckedTrunc then
        if length Types \<noteq> 2 then Inl AssertionFailed
        else
          andThen (getGreatestWidth (Types ! 1)) (\<lambda>DstBitWidth.
            let Result = trunc DstBitWidth SrcVal;
                Signed = (ID = SToSCheckedTrunc);
                Ext = (if Signed then sext SrcBitWidth Result else zext SrcBitWidth Result)
            in Inr (Result, SrcVal \<noteq> Ext))
      else
        if length Types \<noteq> 2 then Inl AssertionFailed
        else
          andThen (getGreatestWidth (Types ! 1)) (\<lambda>DstBitWidth.
            let Result = trunc DstBitWidth SrcVal;
                TruncVal = trunc (DstBitWidth - 1) SrcVal
            in Inr (Result, SrcVal \<noteq> zext SrcBitWidth TruncVal)))"

text \<open>
  Whether the user-written types are found: the location is an apply expression
  whose argument has either a one-element tuple type or a type that is no tuple.
\<close>

definition userTypesKnown :: "SILLocation \<Rightarrow> bool" where
  "userTypesKnown Loc =
     (case getAsApplyExpr Loc of
        Some (ApplyExpr k implicit fn arg ty) \<Rightarrow>
          (case getType arg of ASTTupleType tys \<Rightarrow> length tys = 1 | _ \<Rightarrow> True)
      | _ \<Rightarrow> False)"

text \<open>The diagnostic chosen on overflow; 2048 bits mark an integer literal.\<close>

definition conversionOverflowDiag ::
  "BuiltinValueKind \<Rightarrow> SILLocation \<Rightarrow> nat \<Rightarrow> APInt \<Rightarrow> Diag" where
  "conversionOverflowDiag ID Loc SrcBitWidth SrcVal =
     (let Literal = (SrcBitWidth = 2048);
          SrcTySigned = fst (getTypeSignedness ID);
          DstTySigned = snd (getTypeSignedness ID)
      in
      if \<not> sourceLocIsValid Loc then
        if Literal then integer_literal_overflow_warn else integer_conversion_overflow_warn
      else if Literal then
        if userTypesKnown Loc then
          if SrcTySigned \<and> \<not> DstTySigned \<and> isNegative SrcVal
          then negative_integer_literal_overflow_unsigned
          else integer_literal_overflow
        else integer_literal_overflow_builtin_types
      else if ID = SUCheckedConversion then integer_conversion_sign_error
      else if userTypesKnown Loc then integer_conversion_overflow
      else integer_conversion_overflow_builtin_types)"

text \<open>\<^verbatim>\<open>constantFoldAndCheckIntegerConversions\<close>.\<close>

definition constantFoldAndCheckIntegerConversions ::
  "BuiltinHeader \<Rightarrow> SILValue list \<Rightarrow> DiagState \<Rightarrow> FoldResult" where
  "constantFoldAndCheckIntegerConversions BI Args st =
     (let ID = getID BI in
      if \<not> (ID = SToSCheckedTrunc \<or> ID = UToUCheckedTrunc \<or> ID = SToUCheckedTrunc
            \<or> ID = UToSCheckedTrunc \<or> ID = SUCheckedConversion
            \<or> ID = USCheckedConversion) then Inl AssertionFailed
      else
        andThen (at Args 0) (\<lambda>A0.
          case asIntegerLiteral A0 of
            None \<Rightarrow> Inr (None, st)
          | Some (vty, SrcVal) \<Rightarrow>
              andThen (at (getTypes BI) 0) (\<lambda>SrcTy.
              andThen (getGreatestWidth SrcTy) (\<lambda>SrcBitWidth.
              andThen (checkedConversion ID (getTypes BI) SrcVal SrcBitWidth)
                (\<lambda>(Result, OverflowError).
                  if OverflowError then
                    if ResultsInError st = None then Inr (None, st)
                    else Inr (None,
                           diagnoseError
                             (conversionOverflowDiag ID (getLoc BI) SrcBitWidth SrcVal) st)
                  else
                    andThen (constructResultWithOverflowTuple BI Result False) (\<lambda>T.
                      Inr (Some T, st)))))))"

section \<open>Float conversions\<close>

text \<open>
  \<^verbatim>\<open>foldFPToIntConversion\<close>. The destination is \<^verbatim>\<open>Types[1]\<close>; the conversion
  rounds towards zero into an integer of the destination's width and signedness.
\<close>

definition foldFPToIntConversion ::
  "APFloatOps \<Rightarrow> BuiltinHeader \<Rightarrow> SILValue list \<Rightarrow> DiagState \<Rightarrow> FoldResult" where
  "foldFPToIntConversion fp BI Args st =
     (if \<not> (getID BI = FPToSI \<or> getID BI = FPToUI) then Inl AssertionFailed
      else
        let conversionToUnsigned = (getID BI = FPToUI) in
        andThen (at Args 0) (\<lambda>A0.
          case asFloatLiteral A0 of
            None \<Rightarrow> Inr (None, st)
          | Some (floc, fty, fpVal) \<Rightarrow>
              andThen (at (getTypes BI) 1) (\<lambda>DestTy.
              andThen (getGreatestWidth DestTy) (\<lambda>destWidth.
                if conversionToUnsigned \<and> isNegativeFP fp fpVal \<and> \<not> isZero fp fpVal then
                  Inr (None,
                       if ResultsInError st \<noteq> None
                       then diagnoseError negative_fp_literal_overflow_unsigned st
                       else st)
                else
                  case convertToInteger fp fpVal destWidth conversionToUnsigned of
                    (status, resInt) \<Rightarrow>
                      if opInvalidOp \<in> status then
                        Inr (None,
                             if ResultsInError st \<noteq> None
                             then diagnoseError float_to_int_overflow st
                             else st)
                      else if status \<noteq> {} \<and> status \<noteq> {opInexact} then Inr (None, st)
                      else Inr (Some (createIntegerLiteral (getTy BI) resInt), st)))))"

text \<open>The struct \<^verbatim>\<open>IEEESemantics\<close> with its constructor, and \<^verbatim>\<open>getFPSemantics\<close>.\<close>

record IEEESemantics =
  bitWidth :: nat
  exponentBitWidth :: nat
  significandBitWidth :: nat
  explicitIntegerPart :: bool
  minExponent :: int

definition mkIEEESemantics :: "nat \<Rightarrow> nat \<Rightarrow> nat \<Rightarrow> bool \<Rightarrow> IEEESemantics" where
  "mkIEEESemantics bits expBits sigBits explicitIntPart =
     \<lparr>bitWidth = bits, exponentBitWidth = expBits, significandBitWidth = sigBits,
      explicitIntegerPart = explicitIntPart,
      minExponent = - (2 ^ (expBits - 1)) + 2\<rparr>"

definition getFPSemantics :: "FPKind \<Rightarrow> Abort + IEEESemantics" where
  "getFPSemantics k =
     (case k of
        IEEE32 \<Rightarrow> Inr (mkIEEESemantics 32 8 23 False)
      | IEEE64 \<Rightarrow> Inr (mkIEEESemantics 64 11 52 False)
      | IEEE80 \<Rightarrow> Inr (mkIEEESemantics 80 15 63 True)
      | _ \<Rightarrow> Inl Unreachable)"

text \<open>
  \<^verbatim>\<open>isLossyUnderflow\<close> on an exponent and a significand. The decrease of the
  significand width is an 8-bit unsigned difference and the mask a 32-bit unsigned
  value, with the wrap-around written out.
\<close>

definition isLossyUnderflow_exponent ::
  "int \<Rightarrow> nat \<Rightarrow> IEEESemantics \<Rightarrow> IEEESemantics \<Rightarrow> bool" where
  "isLossyUnderflow_exponent srcExponent srcSignificand srcSem destSem =
     (if minExponent destSem \<le> srcExponent then False
      else if srcExponent < minExponent destSem - int (significandBitWidth destSem) then True
      else
        let bitWidthDecrease =
              (significandBitWidth srcSem + 256 - significandBitWidth destSem) mod 256;
            truncSignificand =
              (if 0 < bitWidthDecrease then srcSignificand div 2 ^ bitWidthDecrease
               else srcSignificand);
            additionalLoss = nat (minExponent destSem - srcExponent + 1);
            lostLSBBitMask = (2 ^ additionalLoss + 2 ^ 32 - 1) mod 2 ^ 32
        in truncSignificand AND lostLSBBitMask \<noteq> 0)"

text \<open>\<^verbatim>\<open>isLossyUnderflow\<close> on a float value and two float types.\<close>

definition isLossyUnderflow :: "APFloatOps \<Rightarrow> APFloat \<Rightarrow> FPKind \<Rightarrow> FPKind \<Rightarrow> Abort + bool" where
  "isLossyUnderflow fp srcVal srcType destType =
     (if isNaN fp srcVal \<or> isZero fp srcVal \<or> isInfinity fp srcVal then Inr False
      else
        andThen (getFPSemantics srcType) (\<lambda>srcSem.
        andThen (getFPSemantics destType) (\<lambda>destSem.
          if bitWidth srcSem \<le> bitWidth destSem then Inr False
          else if isDenormal fp srcVal then Inr True
          else
            Inr (isLossyUnderflow_exponent (ilogb fp srcVal)
                   (getZExtValue (bitcastToAPInt fp srcVal)
                      mod 2 ^ significandBitWidth srcSem)
                   srcSem destSem))))"

text \<open>
  \<^verbatim>\<open>isHexLiteralInSource\<close>: the loop steps through implicit calls of a
  constructor with one argument, given as a tuple expression, to its argument.
\<close>

fun skipImplicitConstructors :: "Expr \<Rightarrow> Expr" where
  "skipImplicitConstructors (ApplyExpr k implicit fn (TupleExpr [e] aty) ty) =
     (if k = CallExprKind \<and> implicit \<and> isConstructorRefCallExpr fn
      then skipImplicitConstructors e
      else ApplyExpr k implicit fn (TupleExpr [e] aty) ty)"
| "skipImplicitConstructors e = e"

definition startswith :: "string \<Rightarrow> string \<Rightarrow> bool" where
  "startswith s p = (take (length p) s = p)"

definition isHexLiteralInSource :: "SILLocation \<Rightarrow> bool" where
  "isHexLiteralInSource flitLoc =
     (case getASTNode flitLoc of
        None \<Rightarrow> False
      | Some expr \<Rightarrow>
          (case skipImplicitConstructors expr of
             FloatLiteralExpr neg digits ty \<Rightarrow> startswith digits ''0x''
           | _ \<Rightarrow> False))"

text \<open>
  \<^verbatim>\<open>maybeExplicitFPCons\<close>. Without a call of a constructor at the location the
  answer is yes ("err on the safer side"), as it is for a call that is not
  implicit; an implicit call counts when it constructs \<open>Double\<close>.
\<close>

definition maybeExplicitFPCons :: "ASTContext \<Rightarrow> BuiltinHeader \<Rightarrow> Abort + bool" where
  "maybeExplicitFPCons astCtx BI =
     (if \<not> (getID BI = FPTrunc \<or> getID BI = IntToFPWithOverflow) then Inl AssertionFailed
      else case getAsCallExpr (getLoc BI) of
        Some (ApplyExpr k implicit fn arg ty) \<Rightarrow>
          if \<not> isConstructorRefCallExpr fn then Inr True
          else if \<not> implicit then Inr True
          else
            Inr (case getAnyNominal ty of
                   Some typeDecl \<Rightarrow> getDoubleDecl astCtx = Some typeDecl
                 | None \<Rightarrow> False)
      | _ \<Rightarrow> Inr True)"

text \<open>
  \<^verbatim>\<open>foldFPTrunc\<close>. The warning is about the state only: whatever is emitted, the
  fold is decided by the status of the conversion and by whether the converted
  value is denormal.
\<close>

definition foldFPTrunc ::
  "ASTContext \<Rightarrow> APFloatOps \<Rightarrow> BuiltinHeader \<Rightarrow> SILValue list \<Rightarrow> DiagState \<Rightarrow> FoldResult" where
  "foldFPTrunc astCtx fp BI Args st =
     (if getID BI \<noteq> FPTrunc then Inl AssertionFailed
      else
        andThen (at Args 0) (\<lambda>A0.
          case asFloatLiteral A0 of
            None \<Rightarrow> Inr (None, st)
          | Some (floc, fty, flitVal) \<Rightarrow>
              andThen (at (getTypes BI) 0) (\<lambda>SrcTy.
              andThen (castToFloat SrcTy) (\<lambda>srcType.
              andThen (at (getTypes BI) 1) (\<lambda>DestTy.
              andThen (castToFloat DestTy) (\<lambda>destType.
                case convert fp flitVal destType of
                  (opStatus, truncVal) \<Rightarrow>
                    andThen
                      (if ResultsInError st \<noteq> None then
                         andThen (maybeExplicitFPCons astCtx BI) (\<lambda>explicit.
                           if explicit then Inr st
                           else
                             andThen (isLossyUnderflow fp flitVal srcType destType)
                               (\<lambda>tinynInexact.
                                 let overflow = (opOverflow \<in> opStatus);
                                     hexnInexact =
                                       (opStatus \<noteq> {} \<and> isHexLiteralInSource floc)
                                 in
                                 if overflow \<or> tinynInexact \<or> hexnInexact then
                                   Inr (diagnoseError
                                          (if overflow then warning_float_trunc_overflow
                                           else if hexnInexact
                                             then warning_float_trunc_hex_inexact
                                           else warning_float_trunc_underflow) st)
                                 else Inr st))
                       else Inr st)
                      (\<lambda>st'.
                        if opInvalidOp \<in> opStatus \<or> opDivByZero \<in> opStatus
                           \<or> opUnderflow \<in> opStatus \<or> isDenormal fp truncVal
                        then Inr (None, st')
                        else Inr (Some (FloatLiteralInst (getLoc BI) (getTy BI) truncVal),
                                  st'))))))))"

text \<open>The case \<open>IntToFPWithOverflow\<close> of \<^verbatim>\<open>constantFoldBuiltin\<close>.\<close>

definition foldIntToFPWithOverflow ::
  "ASTContext \<Rightarrow> APFloatOps \<Rightarrow> BuiltinHeader \<Rightarrow> SILValue list \<Rightarrow> DiagState \<Rightarrow> FoldResult" where
  "foldIntToFPWithOverflow astCtx fp BI Args st =
     andThen (at Args 0) (\<lambda>A0.
       case asIntegerLiteral A0 of
         None \<Rightarrow> Inr (None, st)
       | Some (vty, SrcVal) \<Rightarrow>
           andThen (at (getTypes BI) 1) (\<lambda>Ty1.
           andThen (castToFloat Ty1) (\<lambda>DestTy.
             case convertFromAPInt fp DestTy SrcVal of
               (ConversionStatus, TruncVal) \<Rightarrow>
                 let overflow = (opOverflow \<in> ConversionStatus);
                     inexact = (opInexact \<in> ConversionStatus)
                 in
                 andThen
                   (if (overflow \<or> inexact) \<and> ResultsInError st \<noteq> None then
                      andThen (if overflow then Inr False else maybeExplicitFPCons astCtx BI)
                        (\<lambda>explicit.
                          if overflow \<or> \<not> explicit then
                            Inr (diagnoseError
                                   (if overflow then integer_literal_overflow
                                    else warning_int_to_fp_inexact) st)
                          else Inr st)
                    else Inr st)
                   (\<lambda>st'.
                     if overflow then Inr (None, st')
                     else Inr (Some (FloatLiteralInst (getLoc BI) (getTy BI) TruncVal),
                               st')))))"

section \<open>The dispatch\<close>

text \<open>
  Modelled from the spec: which kinds \<^verbatim>\<open>swift/AST/Builtins.def\<close> declares as
  \<^verbatim>\<open>BUILTIN_BINARY_OPERATION_WITH_OVERFLOW\<close>, \<^verbatim>\<open>BUILTIN_BINARY_OPERATION\<close> and
  \<^verbatim>\<open>BUILTIN_BINARY_PREDICATE\<close>; the file is not part of the source. The groups are
  those of section 4.2 of the specification.
\<close>

definition isBinaryOperationWithOverflow :: "BuiltinValueKind \<Rightarrow> bool" where
  "isBinaryOperationWithOverflow ID =
     (ID = SAddOver \<or> ID = UAddOver \<or> ID = SSubOver \<or> ID = USubOver
      \<or> ID = SMulOver \<or> ID = UMulOver)"

definition isBinaryOperation :: "BuiltinValueKind \<Rightarrow> bool" where
  "isBinaryOperation ID =
     (ID = Add \<or> ID = Sub \<or> ID = Mul \<or> ID = SDiv \<or> ID = SRem \<or> ID = UDiv \<or> ID = URem
      \<or> ID = ExactSDiv \<or> ID = ExactUDiv
      \<or> ID = And \<or> ID = Or \<or> ID = Xor \<or> ID = Shl \<or> ID = LShr \<or> ID = AShr
      \<or> ID = FAdd \<or> ID = FSub \<or> ID = FMul \<or> ID = FDiv \<or> ID = FRem)"

definition isBinaryPredicate :: "BuiltinValueKind \<Rightarrow> bool" where
  "isBinaryPredicate ID =
     (ID = ICMP_EQ \<or> ID = ICMP_NE \<or> ID = ICMP_SLT \<or> ID = ICMP_SGT \<or> ID = ICMP_SLE
      \<or> ID = ICMP_SGE \<or> ID = ICMP_ULT \<or> ID = ICMP_UGT \<or> ID = ICMP_ULE \<or> ID = ICMP_UGE)"

text \<open>\<^verbatim>\<open>constantFoldBuiltin\<close>.\<close>

definition constantFoldBuiltin ::
  "ASTContext \<Rightarrow> APFloatOps \<Rightarrow> BuiltinHeader \<Rightarrow> SILValue list \<Rightarrow> DiagState \<Rightarrow> FoldResult" where
  "constantFoldBuiltin astCtx fp BI Args st =
     (let ID = getID BI in
      if getIntrinsicID BI \<noteq> not_intrinsic then
        constantFoldIntrinsic BI Args (getIntrinsicID BI) st
      else if isBinaryOperationWithOverflow ID then
        constantFoldBinaryWithOverflow_Builtin BI Args ID st
      else if isBinaryOperation ID then constantFoldBinary fp BI Args ID st
      else if isBinaryPredicate ID then
        andThen (constantFoldCompare BI Args ID) (\<lambda>C. Inr (C, st))
      else if ID = Trunc \<or> ID = ZExt \<or> ID = SExt \<or> ID = TruncOrBitCast
            \<or> ID = ZExtOrBitCast \<or> ID = SExtOrBitCast then
        andThen (at Args 0) (\<lambda>A0.
          case asIntegerLiteral A0 of
            None \<Rightarrow> Inr (None, st)
          | Some (vty, V) \<Rightarrow>
              andThen (constantFoldCast V ID (getTypes BI)) (\<lambda>CastResV.
                Inr (Some (createIntegerLiteral (getTy BI) CastResV), st)))
      else if ID = SToSCheckedTrunc \<or> ID = UToUCheckedTrunc \<or> ID = SToUCheckedTrunc
            \<or> ID = UToSCheckedTrunc \<or> ID = SUCheckedConversion
            \<or> ID = USCheckedConversion then
        constantFoldAndCheckIntegerConversions BI Args st
      else if ID = IntToFPWithOverflow then foldIntToFPWithOverflow astCtx fp BI Args st
      else if ID = FPTrunc then foldFPTrunc astCtx fp BI Args st
      else if ID = FPToSI \<or> ID = FPToUI then foldFPToIntConversion fp BI Args st
      else if ID = AssumeNonNegative then
        andThen (at Args 0) (\<lambda>A0.
          case asIntegerLiteral A0 of
            None \<Rightarrow> Inr (None, st)
          | Some (vty, VInt) \<Rightarrow>
              Inr (Some A0,
                   if isNegative VInt \<and> ResultsInError st \<noteq> None
                   then diagnoseError wrong_non_negative_assumption st
                   else st))
      else Inr (None, st))"

text \<open>\<^verbatim>\<open>constantFoldInstruction\<close>.\<close>

definition constantFoldInstruction ::
  "ASTContext \<Rightarrow> APFloatOps \<Rightarrow> SILValue \<Rightarrow> DiagState \<Rightarrow> FoldResult" where
  "constantFoldInstruction astCtx fp I st =
     (case I of
        BuiltinInst BI Args \<Rightarrow> constantFoldBuiltin astCtx fp BI Args st
      | TupleExtractInst (TupleInst tty Elements) FieldNo \<Rightarrow>
          andThen (at Elements FieldNo) (\<lambda>E. Inr (Some E, st))
      | StructExtractInst (StructInst Fields) FieldName \<Rightarrow>
          (case map_of Fields FieldName of
             Some V \<Rightarrow> Inr (Some V, st)
           | None \<Rightarrow> Inl OutOfRange)
      | IndexingInst Base Index \<Rightarrow>
          (case asIntegerLiteral Index of
             Some (ity, IntLiteral) \<Rightarrow>
               if getZExtValue IntLiteral = 0 then Inr (Some Base, st) else Inr (None, st)
           | None \<Rightarrow> Inr (None, st))
      | _ \<Rightarrow> Inr (None, st))"

section \<open>The driver's decision for one user\<close>

text \<open>
  The body of the loop over the users of a literal in
  \<^verbatim>\<open>ConstantFolder::processWorkList\<close>, up to its decision (source lines 1592 to
  1638): a user in the error set is skipped; a struct or tuple user is put on the
  worklist; otherwise the flag starts absent, or present and false when
  diagnostics are enabled, the user is folded, it joins the error set when the
  flag comes back true, and it is kept when the folder returns no value and
  replaced by the returned value otherwise. The rewriting of the uses, the
  worklist, the note taken of a \<^verbatim>\<open>cond_fail\<close> user and the deletion of dead
  instructions are not modelled.
\<close>

datatype UserDecision = Skipped | Enqueued | Retained | Replaced SILValue

record UserStep =
  decision :: UserDecision
  ErrorSet :: "SILValue set"
  emitted :: "Diag list"

fun isStructOrTuple :: "SILValue \<Rightarrow> bool" where
  "isStructOrTuple (StructInst fs) = True"
| "isStructOrTuple (TupleInst ty es) = True"
| "isStructOrTuple _ = False"

definition foldUser ::
  "ASTContext \<Rightarrow> APFloatOps \<Rightarrow> bool \<Rightarrow> SILValue set \<Rightarrow> SILValue \<Rightarrow> Abort + UserStep" where
  "foldUser astCtx fp EnableDiagnostics Errors User =
     (if User \<in> Errors then
        Inr \<lparr>decision = Skipped, ErrorSet = Errors, emitted = []\<rparr>
      else if isStructOrTuple User then
        Inr \<lparr>decision = Enqueued, ErrorSet = Errors, emitted = []\<rparr>
      else
        andThen
          (constantFoldInstruction astCtx fp User
             \<lparr>ResultsInError = (if EnableDiagnostics then Some False else None),
              Diags = []\<rparr>)
          (\<lambda>(C, st).
            let Errors' =
                  (if ResultsInError st = Some True then insert User Errors else Errors)
            in Inr \<lparr>decision = (case C of None \<Rightarrow> Retained | Some V \<Rightarrow> Replaced V),
                    ErrorSet = Errors', emitted = Diags st\<rparr>))"

section \<open>The specification's readings, and instructions to evaluate on\<close>

text \<open>
  The specification's wording of the explicit-initializer test, to compare with
  \<open>maybeExplicitFPCons\<close>: the location resolves to a call expression whose callee
  is a constructor reference and which is not marked implicit, or the constructed
  type is \<open>Double\<close>.
\<close>

definition spec_maybeExplicit :: "ASTContext \<Rightarrow> SILLocation \<Rightarrow> bool" where
  "spec_maybeExplicit astCtx Loc =
     (case getAsCallExpr Loc of
        Some (ApplyExpr k implicit fn arg ty) \<Rightarrow>
          (isConstructorRefCallExpr fn \<and> \<not> implicit)
          \<or> (getAnyNominal ty \<noteq> None \<and> getAnyNominal ty = getDoubleDecl astCtx)
      | _ \<Rightarrow> False)"

text \<open>
  The specification's wording of the overflow flag of a checked conversion:
  truncate to the destination width, extend back to the source width by the
  source's signedness, and compare with the input.
\<close>

definition spec_conversionOverflow :: "bool \<Rightarrow> nat \<Rightarrow> nat \<Rightarrow> APInt \<Rightarrow> bool" where
  "spec_conversionOverflow SrcSigned s d x =
     ((if SrcSigned then sext s (trunc d x) else zext s (trunc d x)) \<noteq> x)"

text \<open>
  The specification's first scenario as an outcome of the driver's decision: the
  instruction is kept and the one diagnostic is \<open>arithmetic_operation_overflow\<close>.
\<close>

definition spec_retainedWithOneDiag :: "Abort + UserStep \<Rightarrow> bool" where
  "spec_retainedWithOneDiag r =
     (case r of
        Inr step \<Rightarrow>
          decision step = Retained \<and> emitted step = [arithmetic_operation_overflow]
      | Inl e \<Rightarrow> False)"

text \<open>
  The mathematical result of a checked operation on two operands, read by the
  signedness of the operation, and whether an integer fits a width under that
  signedness (section 8 of the specification).
\<close>

definition isSignedOver :: "BuiltinValueKind \<Rightarrow> bool" where
  "isSignedOver ID = (ID = SAddOver \<or> ID = SSubOver \<or> ID = SMulOver)"

definition readAs :: "bool \<Rightarrow> APInt \<Rightarrow> int" where
  "readAs signed x = (if signed then getSExtValue x else int (getZExtValue x))"

definition mathResult :: "BuiltinValueKind \<Rightarrow> APInt \<Rightarrow> APInt \<Rightarrow> int" where
  "mathResult ID x y =
     (let a = readAs (isSignedOver ID) x; b = readAs (isSignedOver ID) y
      in if ID = SAddOver \<or> ID = UAddOver then a + b
         else if ID = SSubOver \<or> ID = USubOver then a - b
         else a * b)"

definition fits :: "bool \<Rightarrow> nat \<Rightarrow> int \<Rightarrow> bool" where
  "fits signed w k = (if signed then fitsSigned w k else fitsUnsigned w k)"

text \<open>
  The quotient or remainder a division builtin stands for: signed kinds read both
  operands as two's complement and truncate towards zero, unsigned kinds read them
  unsigned (section 4.1 of the specification).
\<close>

definition mathQuotient :: "BuiltinValueKind \<Rightarrow> APInt \<Rightarrow> APInt \<Rightarrow> int" where
  "mathQuotient ID x y =
     (if ID = SDiv then truncDiv (getSExtValue x) (getSExtValue y)
      else if ID = SRem then truncRem (getSExtValue x) (getSExtValue y)
      else if ID = UDiv then int (getZExtValue x div getZExtValue y)
      else int (getZExtValue x mod getZExtValue y))"

text \<open>
  A routine leaves the state alone on a call when, if it returns, it returns the
  state it was given: nothing was emitted and the flag was not touched.
\<close>

definition leavesState :: "DiagState \<Rightarrow> FoldResult \<Rightarrow> bool" where
  "leavesState st r = (case r of Inl e \<Rightarrow> True | Inr (C, st') \<Rightarrow> st' = st)"

text \<open>
  Values to evaluate the folder on. No integer fold reads the float operations,
  so an inert set of them completes a closed call; \<open>intLit w v\<close> is the literal of
  width \<open>w\<close> and unsigned reading \<open>v\<close>; \<open>plainBuiltin\<close> is a builtin that is no
  intrinsic, outside any specialization, at a location without syntax;
  \<open>binaryCallLoc\<close> is the location of a call of an operator on two \<open>Int32\<close>.
\<close>

definition inertFloatOps :: APFloatOps where
  "inertFloatOps =
     \<lparr>fadd = (\<lambda>a b. a), fsubtract = (\<lambda>a b. a), fmultiply = (\<lambda>a b. a),
      fdivide = (\<lambda>a b. a),
      convert = (\<lambda>a k. ({}, APFloat k (bitPattern a))),
      convertFromAPInt = (\<lambda>k v. ({}, APFloat k (getZExtValue v))),
      convertToInteger = (\<lambda>a w u. ({}, APInt w 0)),
      isNaN = (\<lambda>a. False), isZero = (\<lambda>a. False), isInfinity = (\<lambda>a. False),
      isDenormal = (\<lambda>a. False), isNegativeFP = (\<lambda>a. False),
      ilogb = (\<lambda>a. 0), bitcastToAPInt = (\<lambda>a. APInt 64 (bitPattern a))\<rparr>"

definition intLit :: "nat \<Rightarrow> nat \<Rightarrow> SILValue" where
  "intLit w v = IntegerLiteralInst (BuiltinIntegerType w) (APInt w v)"

definition plainBuiltin :: "BuiltinValueKind \<Rightarrow> SILType \<Rightarrow> SILType list \<Rightarrow> BuiltinHeader" where
  "plainBuiltin ID ty tys =
     \<lparr>getLoc = SILLocation True None, getTy = ty, isSpecialization = False,
      getIntrinsicID = not_intrinsic, getID = ID, getTypes = tys\<rparr>"

definition binaryCallLoc :: SILLocation where
  "binaryCallLoc =
     SILLocation True (Some (ApplyExpr OtherApplyKind False (OtherExpr (NominalType ''+''))
       (TupleExpr [OtherExpr (NominalType ''Int32''), OtherExpr (NominalType ''Int32'')]
          (ASTTupleType [NominalType ''Int32'', NominalType ''Int32'']))
       (NominalType ''Int32'')))"

section \<open>Basic facts\<close>

lemma andThen_simps [simp]:
  "andThen (Inr x) f = f x"
  "andThen (Inl e) f = Inl e"
  by (simp_all add: andThen_def)

lemma at_simps [simp]:
  "at (x # xs) 0 = Inr x"
  "at (x # xs) (Suc n) = at xs n"
  "at (x # xs) 1 = at xs 0"
  "at (x # xs) 2 = at xs 1"
  "at [] n = Inl OutOfRange"
  by (simp_all add: at_def)

lemma dispatch_binary:
  assumes "getIntrinsicID BI = not_intrinsic" and "isBinaryOperation (getID BI)"
  shows "constantFoldBuiltin astCtx fp BI Args st =
         constantFoldBinary fp BI Args (getID BI) st"
  using assms
  by (auto simp: constantFoldBuiltin_def isBinaryOperation_def
        isBinaryOperationWithOverflow_def)

lemma dispatch_compare:
  assumes "getIntrinsicID BI = not_intrinsic" and "isBinaryPredicate (getID BI)"
  shows "constantFoldBuiltin astCtx fp BI Args st =
         andThen (constantFoldCompare BI Args (getID BI)) (\<lambda>C. Inr (C, st))"
  using assms
  by (auto simp: constantFoldBuiltin_def isBinaryPredicate_def isBinaryOperation_def
        isBinaryOperationWithOverflow_def)

lemma dispatch_overflow:
  assumes "getIntrinsicID BI = not_intrinsic" and "isBinaryOperationWithOverflow (getID BI)"
  shows "constantFoldBuiltin astCtx fp BI Args st =
         constantFoldBinaryWithOverflow_Builtin BI Args (getID BI) st"
  using assms by (simp add: constantFoldBuiltin_def)

lemma dispatch_division:
  assumes "getIntrinsicID BI = not_intrinsic"
    and "getID BI = SDiv \<or> getID BI = SRem \<or> getID BI = UDiv \<or> getID BI = URem"
  shows "constantFoldBuiltin astCtx fp BI Args st =
         constantFoldAndCheckDivision BI Args (getID BI) st"
proof -
  have "isBinaryOperation (getID BI)" using assms(2) by (auto simp: isBinaryOperation_def)
  then have "constantFoldBuiltin astCtx fp BI Args st =
      constantFoldBinary fp BI Args (getID BI) st"
    using assms(1) by (rule dispatch_binary [rotated])
  also have "\<dots> = constantFoldAndCheckDivision BI Args (getID BI) st"
    using assms(2) by (auto simp: constantFoldBinary_def)
  finally show ?thesis .
qed

lemma dispatch_conversion:
  assumes "getIntrinsicID BI = not_intrinsic"
    and "getID BI = SToSCheckedTrunc \<or> getID BI = UToUCheckedTrunc
         \<or> getID BI = SToUCheckedTrunc \<or> getID BI = UToSCheckedTrunc"
  shows "constantFoldBuiltin astCtx fp BI Args st =
         constantFoldAndCheckIntegerConversions BI Args st"
  using assms
  by (auto simp: constantFoldBuiltin_def isBinaryOperationWithOverflow_def
        isBinaryOperation_def isBinaryPredicate_def)

lemma dispatch_fptrunc:
  assumes "getIntrinsicID BI = not_intrinsic" and "getID BI = FPTrunc"
  shows "constantFoldBuiltin astCtx fp BI Args st = foldFPTrunc astCtx fp BI Args st"
  using assms
  by (simp add: constantFoldBuiltin_def isBinaryOperationWithOverflow_def
        isBinaryOperation_def isBinaryPredicate_def)

text \<open>The driver's decision for a builtin user outside the error set.\<close>

lemma foldUser_builtin:
  assumes "BuiltinInst BI Args \<notin> Errors"
  shows "foldUser astCtx fp EnableDiagnostics Errors (BuiltinInst BI Args) =
     andThen (constantFoldBuiltin astCtx fp BI Args
                \<lparr>ResultsInError = (if EnableDiagnostics then Some False else None),
                 Diags = []\<rparr>)
       (\<lambda>(C, st). Inr \<lparr>decision = (case C of None \<Rightarrow> Retained | Some V \<Rightarrow> Replaced V),
                       ErrorSet = (if ResultsInError st = Some True
                                   then insert (BuiltinInst BI Args) Errors else Errors),
                       emitted = Diags st\<rparr>)"
  using assms by (simp add: foldUser_def constantFoldInstruction_def Let_def)

text \<open>The tuple built for a checked operation whose type is a pair of integers.\<close>

lemma overflow_tuple:
  assumes "getTy BI = TupleType [BuiltinIntegerType w, BuiltinIntegerType 1]"
  shows "constructResultWithOverflowTuple BI Res Overflow =
     Inr (TupleInst (getTy BI)
            [IntegerLiteralInst (BuiltinIntegerType w) Res,
             IntegerLiteralInst (BuiltinIntegerType 1) (APInt 1 (if Overflow then 1 else 0))])"
  using assms
  by (simp add: constructResultWithOverflowTuple_def createIntegerLiteralOfInt_def
        createIntegerLiteral_def mkAPInt_def)

lemma mkAPInt_of_nat:
  assumes "v < 2 ^ w"
  shows "mkAPInt w (int v) = APInt w v"
proof -
  have "int v < 2 ^ w" using assms by simp
  then have "int v mod 2 ^ w = int v" by simp
  then show ?thesis by (simp add: mkAPInt_def)
qed

lemma mkAPInt_cong:
  "getBitWidth (mkAPInt w k) = w \<and> int (getZExtValue (mkAPInt w k)) mod 2 ^ w = k mod 2 ^ w"
  by (simp add: mkAPInt_def)

section \<open>Integer casts\<close>

lemma mod_wrap_once:
  fixes a m :: int
  assumes "m \<le> a" and "a < 2 * m"
  shows "a mod m = a - m"
proof -
  have "(a - m) mod m = a - m"
    using assms by (intro mod_pos_pos_trivial) auto
  then show ?thesis by simp
qed

text \<open>The signed reading of a well-formed value is the library's \<open>signed_take_bit\<close>.\<close>

lemma getSExtValue_signed_take_bit:
  assumes "wellFormed x"
  shows "getSExtValue x = signed_take_bit (getBitWidth x - 1) (int (getZExtValue x))"
proof -
  obtain w v where x: "x = APInt w v" by (cases x)
  from assms x obtain n where w: "w = Suc n" and v: "v < 2 ^ Suc n"
    by (cases w) (auto simp: wellFormed_def)
  show ?thesis
  proof (cases "2 ^ n \<le> v")
    case True
    have "(int v + 2 ^ n) mod 2 ^ Suc n = int v + 2 ^ n - 2 ^ Suc n"
    proof (rule mod_wrap_once)
      have "(2::int) ^ n \<le> int v" using True by simp
      then show "(2::int) ^ Suc n \<le> int v + 2 ^ n" by simp
      have "int v < 2 ^ Suc n" using v by (simp only: of_nat_less_numeral_power_cancel_iff)
      then show "int v + 2 ^ n < 2 * 2 ^ Suc n" by simp
    qed
    then show ?thesis using True v
      by (simp add: x w getSExtValue_def isNegative_def signed_take_bit_eq_take_bit_shift
            take_bit_eq_mod)
  next
    case False
    have "(int v + 2 ^ n) mod 2 ^ Suc n = int v + 2 ^ n"
      using False v by simp
    then show ?thesis using False v
      by (simp add: x w getSExtValue_def isNegative_def signed_take_bit_eq_take_bit_shift
            take_bit_eq_mod)
  qed
qed

lemma bit_below_width:
  assumes "bit (v::nat) i" and "v < 2 ^ s"
  shows "i < s"
proof (rule ccontr)
  assume "\<not> i < s"
  then have "(2::nat) ^ s \<le> 2 ^ i" by simp
  with assms(2) have "v < 2 ^ i" by linarith
  then have "v div 2 ^ i = 0" by simp
  with assms(1) show False by (simp add: bit_iff_odd)
qed

lemma bit_trunc:
  "bit (getZExtValue (trunc d x)) i \<longleftrightarrow> i < d \<and> bit (getZExtValue x) i"
  by (simp add: trunc_def take_bit_eq_mod [symmetric] bit_take_bit_iff)

lemma bit_zext:
  assumes "wellFormed x"
  shows "bit (getZExtValue (zext d x)) i \<longleftrightarrow> i < getBitWidth x \<and> bit (getZExtValue x) i"
  using assms bit_below_width [of "getZExtValue x" i "getBitWidth x"]
  by (auto simp: zext_def wellFormed_def)

lemma bit_sext:
  assumes "wellFormed x" and "getBitWidth x \<le> d"
  shows "bit (getZExtValue (sext d x)) i \<longleftrightarrow>
         i < d \<and> bit (getZExtValue x) (min i (getBitWidth x - 1))"
  using assms
  by (simp add: sext_def mkAPInt_def getSExtValue_signed_take_bit bit_nat_iff
        take_bit_eq_mod [symmetric] bit_take_bit_iff bit_signed_take_bit_iff
        bit_of_nat_iff_bit min.commute)

lemma constantFoldCast_eval:
  "constantFoldCast val ID [BuiltinIntegerType s, BuiltinIntegerType d] =
     (if s = d then Inr val
      else if ID = Trunc \<or> ID = TruncOrBitCast then Inr (trunc d val)
      else if ID = ZExt \<or> ID = ZExtOrBitCast then Inr (zext d val)
      else if ID = SExt \<or> ID = SExtOrBitCast then Inr (sext d val)
      else Inl Unreachable)"
  by (simp add: constantFoldCast_def)

text \<open>
  C6. For each of the six cast kinds applied to a well-formed value of width \<open>s\<close>
  with type arguments of widths \<open>s\<close> and \<open>d\<close>, \<open>constantFoldCast\<close> returns a value:
  the source itself when \<open>s = d\<close>, whatever the kind; otherwise, for a truncation,
  the value of width \<open>d\<close> whose bits are the low \<open>d\<close> bits of the source; for a
  zero extension to a wider \<open>d\<close>, the value of width \<open>d\<close> whose low \<open>s\<close> bits are
  the source's and whose other bits are zero; for a sign extension to a wider
  \<open>d\<close>, the value of width \<open>d\<close> whose low \<open>s\<close> bits are the source's and whose
  other bits repeat the source's sign bit \<open>s - 1\<close>.
\<close>

theorem constantFoldCast_kinds:
  assumes "wellFormed val" and "getBitWidth val = s"
    and "ID \<in> {Trunc, TruncOrBitCast, ZExt, ZExtOrBitCast, SExt, SExtOrBitCast}"
  shows "\<exists>r. constantFoldCast val ID [BuiltinIntegerType s, BuiltinIntegerType d] = Inr r \<and>
           (s = d \<longrightarrow> r = val) \<and>
           (s \<noteq> d \<longrightarrow> (ID = Trunc \<or> ID = TruncOrBitCast) \<longrightarrow>
              getBitWidth r = d \<and>
              (\<forall>i. bit (getZExtValue r) i \<longleftrightarrow> i < d \<and> bit (getZExtValue val) i)) \<and>
           (s < d \<longrightarrow> (ID = ZExt \<or> ID = ZExtOrBitCast) \<longrightarrow>
              getBitWidth r = d \<and>
              (\<forall>i. bit (getZExtValue r) i \<longleftrightarrow> i < s \<and> bit (getZExtValue val) i)) \<and>
           (s < d \<longrightarrow> (ID = SExt \<or> ID = SExtOrBitCast) \<longrightarrow>
              getBitWidth r = d \<and>
              (\<forall>i. bit (getZExtValue r) i \<longleftrightarrow>
                     i < d \<and> bit (getZExtValue val) (min i (s - 1))))"
proof (cases "s = d")
  case True
  then show ?thesis by (simp add: constantFoldCast_eval)
next
  case False
  consider "ID = Trunc \<or> ID = TruncOrBitCast" | "ID = ZExt \<or> ID = ZExtOrBitCast"
    | "ID = SExt \<or> ID = SExtOrBitCast"
    using assms(3) by blast
  then show ?thesis
  proof cases
    case 1
    with False have "constantFoldCast val ID [BuiltinIntegerType s, BuiltinIntegerType d]
        = Inr (trunc d val)" by (simp add: constantFoldCast_eval)
    moreover have "getBitWidth (trunc d val) = d" by (simp add: trunc_def)
    ultimately show ?thesis using 1 False by (auto simp: bit_trunc)
  next
    case 2
    with False have "constantFoldCast val ID [BuiltinIntegerType s, BuiltinIntegerType d]
        = Inr (zext d val)" by (auto simp: constantFoldCast_eval)
    moreover have "getBitWidth (zext d val) = d" by (simp add: zext_def)
    ultimately show ?thesis using 2 False assms(1,2) by (auto simp: bit_zext)
  next
    case 3
    with False have "constantFoldCast val ID [BuiltinIntegerType s, BuiltinIntegerType d]
        = Inr (sext d val)" by (auto simp: constantFoldCast_eval)
    moreover have "getBitWidth (sext d val) = d" by (simp add: sext_def mkAPInt_def)
    moreover have "s < d \<Longrightarrow> bit (getZExtValue (sext d val)) i \<longleftrightarrow>
        i < d \<and> bit (getZExtValue val) (min i (s - 1))" for i
      using bit_sext [of val d i] assms(1,2) by simp
    ultimately show ?thesis using 3 False by auto
  qed
qed

theorem constantFoldCast_kinds_witness:
  "wellFormed (APInt 8 200) \<and>
   constantFoldCast (APInt 8 200) SExt [BuiltinIntegerType 8, BuiltinIntegerType 16]
     = Inr (APInt 16 65480) \<and>
   (\<forall>i. bit (65480 :: nat) i \<longleftrightarrow> i < 16 \<and> bit (200 :: nat) (min i 7))"
  using constantFoldCast_kinds [of "APInt 8 200" 8 SExt 16]
  by (simp add: wellFormed_def constantFoldCast_eval sext_def mkAPInt_def getSExtValue_def
        isNegative_def)

section \<open>Unchecked add, sub and mul\<close>

text \<open>
  C10. The binary folder returns no fold for the kinds \<open>Add\<close>, \<open>Sub\<close> and \<open>Mul\<close>,
  whatever the instruction, its operands (two integer literals included) and the
  state, which it leaves as it was.
\<close>

theorem constantFoldBinary_Add_Sub_Mul:
  "constantFoldBinary fp BI Args Add st = Inr (None, st) \<and>
   constantFoldBinary fp BI Args Sub st = Inr (None, st) \<and>
   constantFoldBinary fp BI Args Mul st = Inr (None, st)"
  by (simp add: constantFoldBinary_def)

theorem constantFoldBinary_Add_Sub_Mul_witness:
  "constantFoldBinary inertFloatOps (plainBuiltin Add (BuiltinIntegerType 32) [BuiltinIntegerType 32])
     [intLit 32 2, intLit 32 3] Add \<lparr>ResultsInError = Some False, Diags = []\<rparr>
   = Inr (None, \<lparr>ResultsInError = Some False, Diags = []\<rparr>)"
  using constantFoldBinary_Add_Sub_Mul [of inertFloatOps
      "plainBuiltin Add (BuiltinIntegerType 32) [BuiltinIntegerType 32]"
      "[intLit 32 2, intLit 32 3]" "\<lparr>ResultsInError = Some False, Diags = []\<rparr>"]
  by simp

section \<open>Unsigned comparisons with zero\<close>

lemma compare_nonliteral_left:
  assumes "asIntegerLiteral x = None"
  shows "constantFoldCompare BI [x, IntegerLiteralInst zty (APInt w 0)] ID =
     (if ID = ICMP_ULT then Inr (Some (IntegerLiteralInst (getTy BI) (APInt 1 0)))
      else if ID = ICMP_UGE then Inr (Some (IntegerLiteralInst (getTy BI) (APInt 1 1)))
      else constantFoldCompare BI [x, IntegerLiteralInst zty (APInt w 0)] ID)"
  using assms
  by (simp add: constantFoldCompare_def matchFalseAgainstZero_def matchTrueAgainstZero_def
        createIntegerLiteral_def mkAPInt_def Let_def)

lemma compare_nonliteral_right:
  assumes "asIntegerLiteral x = None"
  shows "constantFoldCompare BI [IntegerLiteralInst zty (APInt w 0), x] ID =
     (if ID = ICMP_UGT then Inr (Some (IntegerLiteralInst (getTy BI) (APInt 1 0)))
      else if ID = ICMP_ULE then Inr (Some (IntegerLiteralInst (getTy BI) (APInt 1 1)))
      else constantFoldCompare BI [IntegerLiteralInst zty (APInt w 0), x] ID)"
  using assms
  by (simp add: constantFoldCompare_def matchFalseAgainstZero_def matchTrueAgainstZero_def
        createIntegerLiteral_def mkAPInt_def Let_def)

text \<open>
  C9. For an operand \<open>x\<close> that is no integer literal and a zero literal of any
  width, the builtin folder replaces \<open>ICMP_ULT(x, 0)\<close> and \<open>ICMP_UGT(0, x)\<close> by
  the 1-bit literal 0, and \<open>ICMP_UGE(x, 0)\<close> and \<open>ICMP_ULE(0, x)\<close> by the 1-bit
  literal 1, at the type of the comparison; the state, and with it the list of
  diagnostics, is returned as it was.
\<close>

theorem constantFoldCompare_unsigned_against_zero:
  assumes "asIntegerLiteral x = None" and "getIntrinsicID BI = not_intrinsic"
  shows "constantFoldBuiltin astCtx fp (BI\<lparr>getID := ICMP_ULT\<rparr>)
           [x, IntegerLiteralInst zty (APInt w 0)] st
         = Inr (Some (IntegerLiteralInst (getTy BI) (APInt 1 0)), st) \<and>
         constantFoldBuiltin astCtx fp (BI\<lparr>getID := ICMP_UGT\<rparr>)
           [IntegerLiteralInst zty (APInt w 0), x] st
         = Inr (Some (IntegerLiteralInst (getTy BI) (APInt 1 0)), st) \<and>
         constantFoldBuiltin astCtx fp (BI\<lparr>getID := ICMP_UGE\<rparr>)
           [x, IntegerLiteralInst zty (APInt w 0)] st
         = Inr (Some (IntegerLiteralInst (getTy BI) (APInt 1 1)), st) \<and>
         constantFoldBuiltin astCtx fp (BI\<lparr>getID := ICMP_ULE\<rparr>)
           [IntegerLiteralInst zty (APInt w 0), x] st
         = Inr (Some (IntegerLiteralInst (getTy BI) (APInt 1 1)), st)"
  using assms
  by (simp add: dispatch_compare isBinaryPredicate_def
        compare_nonliteral_left [where ID = ICMP_ULT]
        compare_nonliteral_left [where ID = ICMP_UGE]
        compare_nonliteral_right [where ID = ICMP_UGT]
        compare_nonliteral_right [where ID = ICMP_ULE])

theorem constantFoldCompare_unsigned_against_zero_witness:
  "constantFoldBuiltin (ASTContext None) inertFloatOps
     ((plainBuiltin OtherBuiltin (BuiltinIntegerType 1) [BuiltinIntegerType 32])
        \<lparr>getID := ICMP_ULT\<rparr>)
     [OtherValue 0, IntegerLiteralInst (BuiltinIntegerType 32) (APInt 32 0)]
     \<lparr>ResultsInError = Some False, Diags = []\<rparr>
   = Inr (Some (IntegerLiteralInst (BuiltinIntegerType 1) (APInt 1 0)),
          \<lparr>ResultsInError = Some False, Diags = []\<rparr>)"
  using constantFoldCompare_unsigned_against_zero [where x = "OtherValue 0"
      and BI = "plainBuiltin OtherBuiltin (BuiltinIntegerType 1) [BuiltinIntegerType 32]"
      and astCtx = "ASTContext None" and fp = inertFloatOps
      and zty = "BuiltinIntegerType 32" and w = 32
      and st = "\<lparr>ResultsInError = Some False, Diags = []\<rparr>"]
  by (simp add: plainBuiltin_def)

section \<open>Shifts by the whole width\<close>

text \<open>
  With the flag absent every routine of the builtin folder leaves the state
  alone, the shift branch excepted: no diagnostic, and the flag stays absent.
\<close>

lemma leavesState_simps [simp]:
  "leavesState st (Inr (C, st')) \<longleftrightarrow> st' = st"
  "leavesState st (Inl e)"
  by (simp_all add: leavesState_def)

lemma leavesState_andThen:
  assumes "\<And>x. m = Inr x \<Longrightarrow> leavesState st (f x)"
  shows "leavesState st (andThen m f)"
  using assms by (cases m) simp_all

lemma silent_overflow_intrinsic:
  assumes "ResultsInError st = None"
  shows "leavesState st (constantFoldBinaryWithOverflow_Intrinsic BI Args ID rep st)"
  using assms
  by (auto simp: constantFoldBinaryWithOverflow_Intrinsic_def intro!: leavesState_andThen
        split: option.splits prod.splits)

lemma silent_overflow_builtin:
  assumes "ResultsInError st = None"
  shows "leavesState st (constantFoldBinaryWithOverflow_Builtin BI Args ID st)"
  using assms
  by (auto simp: constantFoldBinaryWithOverflow_Builtin_def
        intro!: leavesState_andThen silent_overflow_intrinsic)

lemma silent_intrinsic:
  assumes "ResultsInError st = None"
  shows "leavesState st (constantFoldIntrinsic BI Args ID st)"
  using assms
  by (auto simp: constantFoldIntrinsic_def intro!: silent_overflow_intrinsic
        split: option.splits prod.splits)

lemma silent_division:
  assumes "ResultsInError st = None"
  shows "leavesState st (constantFoldAndCheckDivision BI Args ID st)"
  using assms
  by (auto simp: constantFoldAndCheckDivision_def intro!: leavesState_andThen
        split: option.splits prod.splits)

lemma silent_binary:
  assumes "ResultsInError st = None"
    and "\<not> (ID = Shl \<or> ID = LShr \<or> ID = AShr)"
  shows "leavesState st (constantFoldBinary fp BI Args ID st)"
  using assms
  by (auto simp: constantFoldBinary_def intro!: leavesState_andThen silent_division
        split: option.splits prod.splits)

lemma silent_conversions:
  assumes "ResultsInError st = None"
  shows "leavesState st (constantFoldAndCheckIntegerConversions BI Args st)"
  using assms
  by (auto simp: constantFoldAndCheckIntegerConversions_def Let_def
        intro!: leavesState_andThen split: option.splits prod.splits)

lemma silent_fptoint:
  assumes "ResultsInError st = None"
  shows "leavesState st (foldFPToIntConversion fp BI Args st)"
  using assms
  by (auto simp: foldFPToIntConversion_def Let_def
        intro!: leavesState_andThen split: option.splits prod.splits)

lemma silent_fptrunc:
  assumes "ResultsInError st = None"
  shows "leavesState st (foldFPTrunc astCtx fp BI Args st)"
  using assms
  by (auto simp: foldFPTrunc_def Let_def
        intro!: leavesState_andThen split: option.splits prod.splits)

lemma silent_inttofp:
  assumes "ResultsInError st = None"
  shows "leavesState st (foldIntToFPWithOverflow astCtx fp BI Args st)"
  using assms
  by (auto simp: foldIntToFPWithOverflow_def Let_def
        intro!: leavesState_andThen split: option.splits prod.splits)

lemma silent_builtin:
  assumes "ResultsInError st = None"
    and "getIntrinsicID BI = not_intrinsic \<longrightarrow>
         \<not> (getID BI = Shl \<or> getID BI = LShr \<or> getID BI = AShr)"
  shows "leavesState st (constantFoldBuiltin astCtx fp BI Args st)"
  using assms
  by (auto simp: constantFoldBuiltin_def Let_def
        intro!: leavesState_andThen silent_intrinsic silent_overflow_builtin silent_binary
          silent_conversions silent_fptoint silent_fptrunc silent_inttofp
        split: option.splits prod.splits)

text \<open>The shift branch, on the 32-bit \<open>Shl\<close> of 1 by 32 with the flag absent.\<close>

lemma shift_without_flag:
  "constantFoldBinary inertFloatOps
     (plainBuiltin Shl (BuiltinIntegerType 32) [BuiltinIntegerType 32])
     [intLit 32 1, intLit 32 32] Shl \<lparr>ResultsInError = None, Diags = []\<rparr>
   = Inr (None, \<lparr>ResultsInError = Some True, Diags = [shifting_all_significant_bits]\<rparr>)"
  by (simp add: constantFoldBinary_def intLit_def diagnoseError_def diagnose_def)

text \<open>
  C3. The claim is that no diagnostic is emitted when the results-in-error flag
  is absent, shifts by the operand width or more included. The code does otherwise
  on that very input: with diagnostics disabled the driver passes an absent flag,
  and folding the 32-bit \<open>Shl\<close> of the literal 1 by the literal 32 still emits
  \<open>shifting_all_significant_bits\<close>, sets the flag, and so puts the instruction in
  the error set. The division and conversion branches test the flag first; the
  shift branch of \<open>constantFoldBinary\<close> does not.
\<close>

theorem shift_diagnosed_with_diagnostics_disabled:
  "foldUser (ASTContext None) inertFloatOps False {}
     (BuiltinInst (plainBuiltin Shl (BuiltinIntegerType 32) [BuiltinIntegerType 32])
        [intLit 32 1, intLit 32 32])
   = Inr \<lparr>decision = Retained,
          ErrorSet = {BuiltinInst (plainBuiltin Shl (BuiltinIntegerType 32)
                                     [BuiltinIntegerType 32])
                        [intLit 32 1, intLit 32 32]},
          emitted = [shifting_all_significant_bits]\<rparr>"
  by (simp add: foldUser_def constantFoldInstruction_def dispatch_binary isBinaryOperation_def
        plainBuiltin_def constantFoldBinary_def intLit_def diagnoseError_def diagnose_def)

section \<open>Checked add, sub and mul\<close>

lemma checked_kernel:
  assumes "isBinaryOperationWithOverflow ID"
  shows "andThen (getLLVMIntrinsicIDForBuiltinWithOverflow ID)
           (\<lambda>IID. constantFoldBinaryWithOverflow_Intrinsic BI
                     [IntegerLiteralInst xty x, IntegerLiteralInst yty y, Flag] IID rep st)
         = andThen (Inr (mkAPInt (getBitWidth x) (mathResult ID x y),
                         \<not> fits (isSignedOver ID) (getBitWidth x) (mathResult ID x y)))
             (\<lambda>(Res, Overflow).
                if ResultsInError st \<noteq> None \<and> Overflow \<and> rep then
                  if isSpecialization BI then Inr (None, st)
                  else
                    andThen (constructResultWithOverflowTuple BI Res Overflow) (\<lambda>T.
                      Inr (Some T,
                           diagnoseError
                             (if inferOpType (getLoc BI) \<noteq> None
                              then arithmetic_operation_overflow
                              else arithmetic_operation_overflow_generic_type) st))
                else
                  andThen (constructResultWithOverflowTuple BI Res Overflow) (\<lambda>T.
                    Inr (Some T, st)))"
  using assms unfolding isBinaryOperationWithOverflow_def
  by (elim disjE)
     (simp_all add: getLLVMIntrinsicIDForBuiltinWithOverflow_def
        constantFoldBinaryWithOverflow_Intrinsic_def constantFoldBinaryWithOverflow_APInt_def
        sadd_ov_def uadd_ov_def ssub_ov_def usub_ov_def smul_ov_def umul_ov_def
        checkedSigned_def checkedUnsigned_def mathResult_def fits_def isSignedOver_def
        readAs_def)

text \<open>
  C5. Let a checked add, sub or mul builtin, signed or unsigned, have the result
  type (integer of width \<open>w\<close>, 1-bit integer) and two well-formed literal operands
  of width \<open>w\<close>. Either the fold is refused, which happens only for an overflow
  that is to be reported with diagnostics enabled inside a specialization; or the
  fold returns the tuple of two literals \<open>(r, o)\<close> where \<open>r\<close> has width \<open>w\<close> and is
  congruent to the mathematical result modulo \<open>2 ^ w\<close>, and \<open>o\<close> is the 1-bit
  value 1 if the mathematical result does not fit in width \<open>w\<close> under the
  signedness of the operation, and 0 if it does.
\<close>

theorem checked_arithmetic_fold:
  assumes "getIntrinsicID BI = not_intrinsic"
    and "isBinaryOperationWithOverflow (getID BI)"
    and "getTy BI = TupleType [BuiltinIntegerType w, BuiltinIntegerType 1]"
    and "wellFormed x" and "wellFormed y" and "getBitWidth x = w" and "getBitWidth y = w"
  shows "(ResultsInError st \<noteq> None \<and> isSpecialization BI \<and>
          (case asIntegerLiteral Flag of Some (ty, v) \<Rightarrow> getZExtValue v = 1 | None \<Rightarrow> False) \<and>
          \<not> fits (isSignedOver (getID BI)) w (mathResult (getID BI) x y) \<and>
          constantFoldBuiltin astCtx fp BI
              [IntegerLiteralInst xty x, IntegerLiteralInst yty y, Flag] st = Inr (None, st))
         \<or>
         (\<exists>r ov st'.
           constantFoldBuiltin astCtx fp BI
               [IntegerLiteralInst xty x, IntegerLiteralInst yty y, Flag] st
             = Inr (Some (TupleInst (getTy BI)
                            [IntegerLiteralInst (BuiltinIntegerType w) r,
                             IntegerLiteralInst (BuiltinIntegerType 1) ov]), st') \<and>
           getBitWidth r = w \<and>
           int (getZExtValue r) mod 2 ^ w = mathResult (getID BI) x y mod 2 ^ w \<and>
           getBitWidth ov = 1 \<and>
           (getZExtValue ov = 1 \<longleftrightarrow>
              \<not> fits (isSignedOver (getID BI)) w (mathResult (getID BI) x y)) \<and>
           (getZExtValue ov = 0 \<longleftrightarrow>
              fits (isSignedOver (getID BI)) w (mathResult (getID BI) x y)))"
  unfolding dispatch_overflow [OF assms(1,2)] constantFoldBinaryWithOverflow_Builtin_def
  using assms(6) mkAPInt_cong [of w "mathResult (getID BI) x y"]
  by (auto simp: checked_kernel [OF assms(2)] overflow_tuple [OF assms(3)])

theorem checked_arithmetic_fold_witness:
  "wellFormed (APInt 8 200) \<and> wellFormed (APInt 8 100) \<and>
   constantFoldBuiltin (ASTContext None) inertFloatOps
     (plainBuiltin UAddOver (TupleType [BuiltinIntegerType 8, BuiltinIntegerType 1])
        [BuiltinIntegerType 8])
     [intLit 8 200, intLit 8 100, intLit 1 0] \<lparr>ResultsInError = Some False, Diags = []\<rparr>
   = Inr (Some (TupleInst (TupleType [BuiltinIntegerType 8, BuiltinIntegerType 1])
                  [intLit 8 44, intLit 1 1]),
          \<lparr>ResultsInError = Some False, Diags = []\<rparr>) \<and>
   mathResult UAddOver (APInt 8 200) (APInt 8 100) = 300 \<and>
   \<not> fits (isSignedOver UAddOver) 8 300"
proof -
  have "constantFoldBuiltin (ASTContext None) inertFloatOps
     (plainBuiltin UAddOver (TupleType [BuiltinIntegerType 8, BuiltinIntegerType 1])
        [BuiltinIntegerType 8])
     [intLit 8 200, intLit 8 100, intLit 1 0] \<lparr>ResultsInError = Some False, Diags = []\<rparr>
   = Inr (Some (TupleInst (TupleType [BuiltinIntegerType 8, BuiltinIntegerType 1])
                  [intLit 8 44, intLit 1 1]),
          \<lparr>ResultsInError = Some False, Diags = []\<rparr>)"
    by (simp add: dispatch_overflow plainBuiltin_def isBinaryOperationWithOverflow_def
          constantFoldBinaryWithOverflow_Builtin_def intLit_def checked_kernel overflow_tuple
          mathResult_def fits_def isSignedOver_def readAs_def fitsUnsigned_def mkAPInt_def)
  moreover note checked_arithmetic_fold [where BI =
        "plainBuiltin UAddOver (TupleType [BuiltinIntegerType 8, BuiltinIntegerType 1])
           [BuiltinIntegerType 8]"
      and w = 8 and x = "APInt 8 200" and y = "APInt 8 100"
      and st = "\<lparr>ResultsInError = Some False, Diags = []\<rparr>" and Flag = "intLit 1 0"
      and astCtx = "ASTContext None" and fp = inertFloatOps
      and xty = "BuiltinIntegerType 8" and yty = "BuiltinIntegerType 8"]
  ultimately show ?thesis
    by (simp add: wellFormed_def mathResult_def fits_def isSignedOver_def readAs_def
          fitsUnsigned_def)
qed

section \<open>The overflowing 32-bit add\<close>

lemma sadd_max_one:
  "constantFoldBinaryWithOverflow_APInt (APInt 32 2147483647) (APInt 32 (Suc 0))
       sadd_with_overflow
     = Inr (APInt 32 2147483648, True)"
  by (simp add: constantFoldBinaryWithOverflow_APInt_def sadd_ov_def checkedSigned_def
        fitsSigned_def mkAPInt_def getSExtValue_def isNegative_def)

lemma checked_add_max_one:
  assumes "getTy BI = TupleType [BuiltinIntegerType 32, BuiltinIntegerType 1]"
    and "\<not> isSpecialization BI" and "getIntrinsicID BI = not_intrinsic"
    and "getID BI = SAddOver"
  shows "constantFoldBuiltin astCtx fp BI [intLit 32 2147483647, intLit 32 1, intLit 1 1]
           \<lparr>ResultsInError = Some False, Diags = []\<rparr>
         = Inr (Some (TupleInst (TupleType [BuiltinIntegerType 32, BuiltinIntegerType 1])
                        [intLit 32 2147483648, intLit 1 1]),
                \<lparr>ResultsInError = Some True,
                 Diags = [if inferOpType (getLoc BI) \<noteq> None then arithmetic_operation_overflow
                          else arithmetic_operation_overflow_generic_type]\<rparr>)"
  using assms
  by (simp add: dispatch_overflow isBinaryOperationWithOverflow_def
        constantFoldBinaryWithOverflow_Builtin_def constantFoldBinaryWithOverflow_Intrinsic_def
        getLLVMIntrinsicIDForBuiltinWithOverflow_def intLit_def sadd_max_one
        constructResultWithOverflowTuple_def createIntegerLiteralOfInt_def
        createIntegerLiteral_def mkAPInt_def diagnoseError_def diagnose_def)

text \<open>
  C2, as amended. With diagnostics enabled, outside a specialization, the 32-bit
  checked signed add of the literals 2147483647 and 1 whose report-overflow operand
  is the literal 1 emits exactly one diagnostic, which is
  \<open>arithmetic_operation_overflow\<close> when the type of the two operands is recovered
  from the location and \<open>arithmetic_operation_overflow_generic_type\<close> otherwise;
  the instruction joins the error set; and the folder returns the tuple of the
  wrapped sum (bits \<open>0x80000000\<close>) and of the overflow bit 1, by which the driver
  replaces the instruction.
\<close>

theorem checked_add_overflow_reported_and_replaced:
  assumes "getTy BI = TupleType [BuiltinIntegerType 32, BuiltinIntegerType 1]"
    and "\<not> isSpecialization BI" and "getIntrinsicID BI = not_intrinsic"
    and "getID BI = SAddOver"
    and "BuiltinInst BI [intLit 32 2147483647, intLit 32 1, intLit 1 1] \<notin> Errors"
  shows "foldUser astCtx fp True Errors
           (BuiltinInst BI [intLit 32 2147483647, intLit 32 1, intLit 1 1])
         = Inr \<lparr>decision =
                   Replaced (TupleInst (TupleType [BuiltinIntegerType 32, BuiltinIntegerType 1])
                               [intLit 32 2147483648, intLit 1 1]),
                ErrorSet = insert (BuiltinInst BI [intLit 32 2147483647, intLit 32 1, intLit 1 1])
                             Errors,
                emitted = [if inferOpType (getLoc BI) \<noteq> None then arithmetic_operation_overflow
                           else arithmetic_operation_overflow_generic_type]\<rparr>"
  unfolding foldUser_builtin [OF assms(5)] if_True checked_add_max_one [OF assms(1-4)]
  by simp

theorem checked_add_overflow_reported_and_replaced_witness:
  "foldUser (ASTContext None) inertFloatOps True {}
     (BuiltinInst ((plainBuiltin SAddOver (TupleType [BuiltinIntegerType 32, BuiltinIntegerType 1])
                      [BuiltinIntegerType 32])\<lparr>getLoc := binaryCallLoc\<rparr>)
        [intLit 32 2147483647, intLit 32 1, intLit 1 1])
   = Inr \<lparr>decision =
             Replaced (TupleInst (TupleType [BuiltinIntegerType 32, BuiltinIntegerType 1])
                         [intLit 32 2147483648, intLit 1 1]),
          ErrorSet = {BuiltinInst ((plainBuiltin SAddOver
                         (TupleType [BuiltinIntegerType 32, BuiltinIntegerType 1])
                         [BuiltinIntegerType 32])\<lparr>getLoc := binaryCallLoc\<rparr>)
                       [intLit 32 2147483647, intLit 32 1, intLit 1 1]},
          emitted = [arithmetic_operation_overflow]\<rparr>"
  using checked_add_overflow_reported_and_replaced [where BI =
        "(plainBuiltin SAddOver (TupleType [BuiltinIntegerType 32, BuiltinIntegerType 1])
            [BuiltinIntegerType 32])\<lparr>getLoc := binaryCallLoc\<rparr>"
      and Errors = "{}" and astCtx = "ASTContext None" and fp = inertFloatOps]
  by (simp add: plainBuiltin_def inferOpType_def binaryCallLoc_def)

text \<open>
  The claim as the specification states it (no replacement, the instruction
  retained) fails on that input: the driver's decision is a replacement.
\<close>

theorem checked_add_overflow_counterexample:
  "\<not> spec_retainedWithOneDiag
      (foldUser (ASTContext None) inertFloatOps True {}
         (BuiltinInst ((plainBuiltin SAddOver
                          (TupleType [BuiltinIntegerType 32, BuiltinIntegerType 1])
                          [BuiltinIntegerType 32])\<lparr>getLoc := binaryCallLoc\<rparr>)
            [intLit 32 2147483647, intLit 32 1, intLit 1 1]))"
proof -
  let ?BI = "(plainBuiltin SAddOver (TupleType [BuiltinIntegerType 32, BuiltinIntegerType 1])
                [BuiltinIntegerType 32])\<lparr>getLoc := binaryCallLoc\<rparr>"
  have h: "constantFoldBuiltin (ASTContext None) inertFloatOps ?BI
          [intLit 32 2147483647, intLit 32 1, intLit 1 1]
          \<lparr>ResultsInError = Some False, Diags = []\<rparr>
        = Inr (Some (TupleInst (TupleType [BuiltinIntegerType 32, BuiltinIntegerType 1])
                       [intLit 32 2147483648, intLit 1 1]),
               \<lparr>ResultsInError = Some True,
                Diags = [if inferOpType (getLoc ?BI) \<noteq> None then arithmetic_operation_overflow
                         else arithmetic_operation_overflow_generic_type]\<rparr>)"
    by (rule checked_add_max_one) (simp_all add: plainBuiltin_def)
  have nin: "BuiltinInst ?BI [intLit 32 2147483647, intLit 32 1, intLit 1 1] \<notin> {}"
    by simp
  show ?thesis
    unfolding foldUser_builtin [OF nin] if_True h
    by (simp add: spec_retainedWithOneDiag_def)
qed

section \<open>Division\<close>

text \<open>The signed reading of a well-formed value lies in the signed range of its width.\<close>

lemma getSExtValue_range:
  assumes "wellFormed x"
  shows "- (2 ^ (getBitWidth x - 1)) \<le> getSExtValue x \<and>
         getSExtValue x < 2 ^ (getBitWidth x - 1)"
proof -
  obtain w v where x: "x = APInt w v" by (cases x)
  from assms x obtain n where w: "w = Suc n" and v: "v < 2 ^ Suc n"
    by (cases w) (auto simp: wellFormed_def)
  have iv: "int v < 2 * 2 ^ n"
    using v by (metis of_nat_less_numeral_power_cancel_iff power_Suc)
  have p: "(0::int) < 2 ^ n" by simp
  show ?thesis
  proof (cases "2 ^ n \<le> v")
    case True
    then have "(2::int) ^ n \<le> int v" by simp
    with True iv show ?thesis by (simp add: x w getSExtValue_def isNegative_def)
  next
    case False
    then have "int v < 2 ^ n" by simp
    moreover have "- (2 ^ n) \<le> int v" using p by linarith
    ultimately show ?thesis using False by (simp add: x w getSExtValue_def isNegative_def)
  qed
qed

text \<open>
  Within a signed range \<open>[-M, M)\<close> the truncating quotient leaves the range for
  one pair only: the least value divided by minus one.
\<close>

lemma truncDiv_fits_iff:
  fixes a b M :: int
  assumes "- M \<le> a" and "a < M" and "- M \<le> b" and "b < M" and "b \<noteq> 0"
  shows "(- M \<le> truncDiv a b \<and> truncDiv a b < M) \<longleftrightarrow> \<not> (a = - M \<and> b = - 1)"
proof -
  have M: "0 < M" using assms by linarith
  have b1: "1 \<le> \<bar>b\<bar>" using assms by linarith
  have nn: "0 \<le> \<bar>a\<bar> div \<bar>b\<bar>"
    using b1 pos_imp_zdiv_nonneg_iff [of "\<bar>b\<bar>" "\<bar>a\<bar>"] by linarith
  have le: "\<bar>a\<bar> div \<bar>b\<bar> \<le> \<bar>a\<bar>"
    using zdiv_mono2 [of "\<bar>a\<bar>" 1 "\<bar>b\<bar>"] b1 by simp
  have absq: "\<bar>truncDiv a b\<bar> = \<bar>a\<bar> div \<bar>b\<bar>"
    using nn assms(5) by (cases "a = 0") (simp_all add: truncDiv_def abs_mult abs_sgn_eq)
  show ?thesis
  proof (cases "a = - M \<and> b = - 1")
    case True
    then show ?thesis using M by (simp add: truncDiv_def)
  next
    case False
    have "truncDiv a b \<noteq> M"
    proof
      assume q: "truncDiv a b = M"
      then have d: "\<bar>a\<bar> div \<bar>b\<bar> = M" using absq M by simp
      with le assms have a: "a = - M" by linarith
      have "\<bar>b\<bar> = 1"
      proof (rule ccontr)
        assume "\<bar>b\<bar> \<noteq> 1"
        with b1 have "2 \<le> \<bar>b\<bar>" by linarith
        then have "\<bar>a\<bar> div \<bar>b\<bar> \<le> \<bar>a\<bar> div 2"
          using zdiv_mono2 [of "\<bar>a\<bar>" 2 "\<bar>b\<bar>"] by simp
        also have "\<dots> < M" using a M by simp
        finally show False using d by simp
      qed
      with False a have "b = 1" by linarith
      with q a M show False by (simp add: truncDiv_def)
    qed
    moreover have "\<bar>truncDiv a b\<bar> \<le> M" using absq le assms by linarith
    ultimately show ?thesis using False by linarith
  qed
qed

lemma constantFoldDiv_eval:
  assumes "ID = SDiv \<or> ID = SRem \<or> ID = UDiv \<or> ID = URem"
    and "wellFormed x" and "getZExtValue y \<noteq> 0"
  shows "constantFoldDiv x y ID =
     Inr (mkAPInt (getBitWidth x) (mathQuotient ID x y),
          (ID = SDiv \<or> ID = SRem) \<and>
          \<not> fitsSigned (getBitWidth x) (truncDiv (getSExtValue x) (getSExtValue y)))"
proof -
  have lt: "getZExtValue x < 2 ^ getBitWidth x" using assms(2) by (simp add: wellFormed_def)
  have "getZExtValue x div getZExtValue y \<le> getZExtValue x" by simp
  with lt have d: "getZExtValue x div getZExtValue y < 2 ^ getBitWidth x" by linarith
  have "getZExtValue x mod getZExtValue y \<le> getZExtValue x" by simp
  with lt have m: "getZExtValue x mod getZExtValue y < 2 ^ getBitWidth x" by linarith
  show ?thesis
    using assms(1,3) mkAPInt_of_nat [OF d] mkAPInt_of_nat [OF m]
    by (auto simp: constantFoldDiv_def mathQuotient_def sdiv_ov_def srem_def udiv_def urem_def
          checkedSigned_def)
qed

lemma signed_quotient_overflow_iff:
  assumes "wellFormed x" and "wellFormed y" and "getBitWidth y = getBitWidth x"
    and "getZExtValue y \<noteq> 0"
  shows "\<not> fitsSigned (getBitWidth x) (truncDiv (getSExtValue x) (getSExtValue y)) \<longleftrightarrow>
         getSExtValue x = - (2 ^ (getBitWidth x - 1)) \<and> getSExtValue y = - 1"
proof -
  have "getSExtValue y \<noteq> 0"
    using assms(2,4) by (auto simp: getSExtValue_def wellFormed_def)
  then show ?thesis
    using truncDiv_fits_iff [of "2 ^ (getBitWidth x - 1)" "getSExtValue x" "getSExtValue y"]
      getSExtValue_range [OF assms(1)] getSExtValue_range [OF assms(2)] assms(3)
    by (simp add: fitsSigned_def)
qed

text \<open>
  C4. For a builtin of kind \<open>SDiv\<close>, \<open>SRem\<close>, \<open>UDiv\<close> or \<open>URem\<close>: when the
  divisor is a literal zero there is no fold, whatever the numerator, and
  \<open>division_by_zero\<close> is emitted and the flag set if diagnostics are enabled (the
  flag is present), nothing being emitted otherwise. When both operands are
  well-formed literals of one width and the divisor is not zero: for \<open>SDiv\<close> and
  \<open>SRem\<close> whose signed quotient does not fit in the width there is no fold, and
  \<open>division_overflow\<close> is emitted and the flag set if diagnostics are enabled;
  in every other case, so always for \<open>UDiv\<close> and \<open>URem\<close>, the instruction is
  replaced by the literal of the quotient or remainder and the state is unchanged.
  The signed quotient fails to fit exactly for the least value divided by minus one.
\<close>

theorem division_fold:
  assumes "getIntrinsicID BI = not_intrinsic"
    and "getID BI = SDiv \<or> getID BI = SRem \<or> getID BI = UDiv \<or> getID BI = URem"
  shows "constantFoldBuiltin astCtx fp BI [Num, IntegerLiteralInst dty (APInt w 0)] st
           = Inr (None, if ResultsInError st = None then st
                        else diagnoseError division_by_zero st) \<and>
         (wellFormed x \<and> wellFormed y \<and> getBitWidth y = getBitWidth x \<and> getZExtValue y \<noteq> 0 \<longrightarrow>
            constantFoldBuiltin astCtx fp BI
                [IntegerLiteralInst xty x, IntegerLiteralInst yty y] st
              = (if (getID BI = SDiv \<or> getID BI = SRem) \<and>
                    \<not> fitsSigned (getBitWidth x) (truncDiv (getSExtValue x) (getSExtValue y))
                 then Inr (None, if ResultsInError st = None then st
                                 else diagnoseError division_overflow st)
                 else Inr (Some (IntegerLiteralInst (getTy BI)
                             (mkAPInt (getBitWidth x) (mathQuotient (getID BI) x y))), st)) \<and>
            (\<not> fitsSigned (getBitWidth x) (truncDiv (getSExtValue x) (getSExtValue y)) \<longleftrightarrow>
               getSExtValue x = - (2 ^ (getBitWidth x - 1)) \<and> getSExtValue y = - 1))"
proof (intro conjI impI)
  show "constantFoldBuiltin astCtx fp BI [Num, IntegerLiteralInst dty (APInt w 0)] st
           = Inr (None, if ResultsInError st = None then st
                        else diagnoseError division_by_zero st)"
    unfolding dispatch_division [OF assms]
    using assms(2) by (simp add: constantFoldAndCheckDivision_def)
next
  assume h: "wellFormed x \<and> wellFormed y \<and> getBitWidth y = getBitWidth x \<and> getZExtValue y \<noteq> 0"
  then have e: "constantFoldDiv x y (getID BI) =
     Inr (mkAPInt (getBitWidth x) (mathQuotient (getID BI) x y),
          (getID BI = SDiv \<or> getID BI = SRem) \<and>
          \<not> fitsSigned (getBitWidth x) (truncDiv (getSExtValue x) (getSExtValue y)))"
    using constantFoldDiv_eval [OF assms(2)] by simp
  show "constantFoldBuiltin astCtx fp BI
                [IntegerLiteralInst xty x, IntegerLiteralInst yty y] st
              = (if (getID BI = SDiv \<or> getID BI = SRem) \<and>
                    \<not> fitsSigned (getBitWidth x) (truncDiv (getSExtValue x) (getSExtValue y))
                 then Inr (None, if ResultsInError st = None then st
                                 else diagnoseError division_overflow st)
                 else Inr (Some (IntegerLiteralInst (getTy BI)
                             (mkAPInt (getBitWidth x) (mathQuotient (getID BI) x y))), st))"
    unfolding dispatch_division [OF assms]
    using assms(2) h by (simp add: constantFoldAndCheckDivision_def e createIntegerLiteral_def)
next
  assume h: "wellFormed x \<and> wellFormed y \<and> getBitWidth y = getBitWidth x \<and> getZExtValue y \<noteq> 0"
  then show "\<not> fitsSigned (getBitWidth x) (truncDiv (getSExtValue x) (getSExtValue y)) \<longleftrightarrow>
               getSExtValue x = - (2 ^ (getBitWidth x - 1)) \<and> getSExtValue y = - 1"
    using signed_quotient_overflow_iff by simp
qed

theorem division_fold_witness:
  "constantFoldBuiltin (ASTContext None) inertFloatOps
      (plainBuiltin UDiv (BuiltinIntegerType 32) [BuiltinIntegerType 32])
      [intLit 32 10, IntegerLiteralInst (BuiltinIntegerType 32) (APInt 32 0)]
      \<lparr>ResultsInError = Some False, Diags = []\<rparr>
     = Inr (None, \<lparr>ResultsInError = Some True, Diags = [division_by_zero]\<rparr>) \<and>
   constantFoldBuiltin (ASTContext None) inertFloatOps
      (plainBuiltin SDiv (BuiltinIntegerType 32) [BuiltinIntegerType 32])
      [IntegerLiteralInst (BuiltinIntegerType 32) (APInt 32 2147483648),
       IntegerLiteralInst (BuiltinIntegerType 32) (APInt 32 4294967295)]
      \<lparr>ResultsInError = Some False, Diags = []\<rparr>
     = Inr (None, \<lparr>ResultsInError = Some True, Diags = [division_overflow]\<rparr>) \<and>
   constantFoldBuiltin (ASTContext None) inertFloatOps
      (plainBuiltin SDiv (BuiltinIntegerType 32) [BuiltinIntegerType 32])
      [IntegerLiteralInst (BuiltinIntegerType 32) (APInt 32 4294967289),
       IntegerLiteralInst (BuiltinIntegerType 32) (APInt 32 2)]
      \<lparr>ResultsInError = Some False, Diags = []\<rparr>
     = Inr (Some (IntegerLiteralInst (BuiltinIntegerType 32) (APInt 32 4294967293)),
            \<lparr>ResultsInError = Some False, Diags = []\<rparr>)"
  using division_fold [where BI =
            "plainBuiltin UDiv (BuiltinIntegerType 32) [BuiltinIntegerType 32]"
          and astCtx = "ASTContext None" and fp = inertFloatOps and Num = "intLit 32 10"
          and dty = "BuiltinIntegerType 32" and w = 32
          and st = "\<lparr>ResultsInError = Some False, Diags = []\<rparr>"]
        division_fold [where BI =
            "plainBuiltin SDiv (BuiltinIntegerType 32) [BuiltinIntegerType 32]"
          and astCtx = "ASTContext None" and fp = inertFloatOps
          and st = "\<lparr>ResultsInError = Some False, Diags = []\<rparr>"
          and x = "APInt 32 2147483648" and y = "APInt 32 4294967295"
          and xty = "BuiltinIntegerType 32" and yty = "BuiltinIntegerType 32"]
        division_fold [where BI =
            "plainBuiltin SDiv (BuiltinIntegerType 32) [BuiltinIntegerType 32]"
          and astCtx = "ASTContext None" and fp = inertFloatOps
          and st = "\<lparr>ResultsInError = Some False, Diags = []\<rparr>"
          and x = "APInt 32 4294967289" and y = "APInt 32 2"
          and xty = "BuiltinIntegerType 32" and yty = "BuiltinIntegerType 32"]
  by (simp add: plainBuiltin_def wellFormed_def diagnoseError_def diagnose_def fitsSigned_def
        truncDiv_def getSExtValue_def isNegative_def mathQuotient_def mkAPInt_def)

section \<open>Checked truncations\<close>

lemma checkedConversion_trunc:
  assumes "ID = SToSCheckedTrunc \<or> ID = UToUCheckedTrunc
           \<or> ID = SToUCheckedTrunc \<or> ID = UToSCheckedTrunc"
  shows "checkedConversion ID [BuiltinIntegerType s, BuiltinIntegerType d] x s =
     Inr (trunc d x,
          (if ID = SToSCheckedTrunc then sext s (trunc d x)
           else if ID = UToSCheckedTrunc then zext s (trunc (d - 1) x)
           else zext s (trunc d x)) \<noteq> x)"
  using assms by (auto simp: checkedConversion_def Let_def)

text \<open>
  What the round trips decide. Zero-extending the low \<open>d\<close> bits gives the input
  back exactly when the unsigned reading is below \<open>2 ^ d\<close>; sign-extending them
  gives it back exactly when the signed reading fits \<open>d\<close> bits.
\<close>

lemma zext_trunc_eq_iff:
  assumes "wellFormed x" and "getBitWidth x = s"
  shows "zext s (trunc d x) = x \<longleftrightarrow> getZExtValue x < 2 ^ d"
proof -
  obtain w v where x: "x = APInt w v" by (cases x)
  have "v mod 2 ^ d = v \<longleftrightarrow> v < 2 ^ d"
    by (metis mod_less mod_less_divisor zero_less_numeral zero_less_power)
  then show ?thesis using assms by (simp add: x zext_def trunc_def)
qed

lemma sext_trunc_eq_iff:
  assumes "wellFormed x" and "getBitWidth x = s" and "0 < d" and "d \<le> s"
  shows "sext s (trunc d x) = x \<longleftrightarrow> fitsSigned d (getSExtValue x)"
proof -
  obtain v where x: "x = APInt s v" using assms(2) by (cases x) simp
  have v: "v < 2 ^ s" and s: "0 < s" using assms(1) by (simp_all add: x wellFormed_def)
  let ?k = "int v"
  have k: "take_bit s ?k = ?k"
    using v by (simp add: take_bit_eq_mod)
  have wt: "wellFormed (trunc d x)" using assms(3) by (simp add: wellFormed_def trunc_def)
  have "getSExtValue (trunc d x) = signed_take_bit (d - 1) (take_bit d ?k)"
    using getSExtValue_signed_take_bit [OF wt]
    by (simp add: trunc_def x take_bit_eq_mod zmod_int)
  also have "\<dots> = signed_take_bit (d - 1) ?k"
  proof -
    have "\<not> d \<le> d - 1" using assms(3) by simp
    then show ?thesis by (simp only: signed_take_bit_take_bit if_False)
  qed
  finally have t: "getSExtValue (trunc d x) = signed_take_bit (d - 1) ?k" .
  have sx: "getSExtValue x = signed_take_bit (s - 1) ?k"
    using getSExtValue_signed_take_bit [OF assms(1)] by (simp add: x)
  have m: "min (d - 1) (s - 1) = d - 1" "min (s - 1) (d - 1) = d - 1"
    using assms(4) by simp_all
  have "sext s (trunc d x) = x \<longleftrightarrow> take_bit s (signed_take_bit (d - 1) ?k) = ?k"
  proof -
    have "nat (take_bit s (signed_take_bit (d - 1) ?k)) = v \<longleftrightarrow>
          take_bit s (signed_take_bit (d - 1) ?k) = ?k"
      by (metis int_nat_eq nat_int take_bit_nonnegative)
    moreover have "sext s (trunc d x) =
        APInt s (nat (take_bit s (signed_take_bit (d - 1) ?k)))"
      by (simp only: sext_def t mkAPInt_def take_bit_eq_mod)
    ultimately show ?thesis by (simp add: x)
  qed
  also have "\<dots> \<longleftrightarrow> signed_take_bit (d - 1) ?k = signed_take_bit (s - 1) ?k"
  proof
    assume h: "take_bit s (signed_take_bit (d - 1) ?k) = ?k"
    have e: "signed_take_bit (s - 1) (take_bit s (signed_take_bit (d - 1) ?k))
          = signed_take_bit (s - 1) (signed_take_bit (d - 1) ?k)"
    proof -
      have "\<not> s \<le> s - 1" using s by simp
      then show ?thesis by (simp only: signed_take_bit_take_bit if_False)
    qed
    have "signed_take_bit (s - 1) ?k
          = signed_take_bit (s - 1) (take_bit s (signed_take_bit (d - 1) ?k))"
      by (simp only: h)
    also have "\<dots> = signed_take_bit (s - 1) (signed_take_bit (d - 1) ?k)" by (rule e)
    also have "\<dots> = signed_take_bit (d - 1) ?k"
      by (simp only: signed_take_bit_signed_take_bit m)
    finally show "signed_take_bit (d - 1) ?k = signed_take_bit (s - 1) ?k" by (rule sym)
  next
    assume h: "signed_take_bit (d - 1) ?k = signed_take_bit (s - 1) ?k"
    have "take_bit s (signed_take_bit (s - 1) ?k) = take_bit s ?k"
      using s by (intro take_bit_signed_take_bit) simp
    then show "take_bit s (signed_take_bit (d - 1) ?k) = ?k" by (simp only: h k)
  qed
  also have "\<dots> \<longleftrightarrow> fitsSigned d (getSExtValue x)"
  proof -
    have "fitsSigned d (getSExtValue x) \<longleftrightarrow>
          signed_take_bit (d - 1) (getSExtValue x) = getSExtValue x"
      by (simp add: fitsSigned_def signed_take_bit_int_eq_self_iff)
    then show ?thesis
      by (simp only: sx signed_take_bit_signed_take_bit m)
  qed
  finally show ?thesis .
qed

text \<open>
  The flag of each of the four checked truncations says that the source value,
  read by the source's signedness, does not fit the destination's width under the
  destination's signedness: the code's choice of extension is the one that makes
  the flag mean overflow.
\<close>

lemma checked_trunc_flag_meaning:
  assumes "wellFormed x" and "getBitWidth x = s" and "0 < d" and "d < s"
  shows "sext s (trunc d x) \<noteq> x \<longleftrightarrow> \<not> fitsSigned d (getSExtValue x)"
    and "zext s (trunc d x) \<noteq> x \<longleftrightarrow> \<not> fitsUnsigned d (int (getZExtValue x))"
    and "zext s (trunc d x) \<noteq> x \<longleftrightarrow> \<not> fitsUnsigned d (getSExtValue x)"
    and "zext s (trunc (d - 1) x) \<noteq> x \<longleftrightarrow> \<not> fitsSigned d (int (getZExtValue x))"
proof -
  show "sext s (trunc d x) \<noteq> x \<longleftrightarrow> \<not> fitsSigned d (getSExtValue x)"
    using sext_trunc_eq_iff [OF assms(1,2,3)] assms(4) by simp
  show "zext s (trunc d x) \<noteq> x \<longleftrightarrow> \<not> fitsUnsigned d (int (getZExtValue x))"
    using zext_trunc_eq_iff [OF assms(1,2)] by (simp add: fitsUnsigned_def)
  show "zext s (trunc (d - 1) x) \<noteq> x \<longleftrightarrow> \<not> fitsSigned d (int (getZExtValue x))"
  proof -
    have "(0::int) < 2 ^ (d - 1)" by simp
    then have "- (2 ^ (d - 1)) \<le> int (getZExtValue x)" by linarith
    then show ?thesis
      using zext_trunc_eq_iff [OF assms(1,2), of "d - 1"] by (simp add: fitsSigned_def)
  qed
  show "zext s (trunc d x) \<noteq> x \<longleftrightarrow> \<not> fitsUnsigned d (getSExtValue x)"
  proof (cases "isNegative x")
    case False
    then show ?thesis
      using zext_trunc_eq_iff [OF assms(1,2)] by (simp add: fitsUnsigned_def getSExtValue_def)
  next
    case True
    have "getSExtValue x < 0"
      using True assms(1) by (simp add: getSExtValue_def wellFormed_def)
    moreover have "(2::nat) ^ d \<le> getZExtValue x"
    proof -
      obtain n where n: "s = Suc n" using assms(4) by (cases s) simp_all
      have "(2::nat) ^ d \<le> 2 ^ n" using assms(4) n by simp
      moreover have "(2::nat) ^ n \<le> getZExtValue x"
        using True assms(2) n by (simp add: isNegative_def)
      ultimately show ?thesis by linarith
    qed
    ultimately show ?thesis
      using zext_trunc_eq_iff [OF assms(1,2), of d] by (simp add: fitsUnsigned_def)
  qed
qed

text \<open>
  The claim as the specification states it (extension by the source's
  signedness after truncation to the destination width) fails for the two mixed
  kinds. The signed 8-bit value \<open>-1\<close> (bits 255) does not fit 4 unsigned bits and
  the code flags it, where sign-extending its low 4 bits gives 255 back; the
  unsigned 8-bit value 15 does not fit 4 signed bits and the code flags it, where
  zero-extending its low 4 bits gives 15 back.
\<close>

theorem checked_trunc_overflow_counterexample:
  "checkedConversion SToUCheckedTrunc [BuiltinIntegerType 8, BuiltinIntegerType 4]
      (APInt 8 255) 8 = Inr (APInt 4 15, True) \<and>
   fst (getTypeSignedness SToUCheckedTrunc) \<and>
   \<not> spec_conversionOverflow (fst (getTypeSignedness SToUCheckedTrunc)) 8 4 (APInt 8 255) \<and>
   checkedConversion UToSCheckedTrunc [BuiltinIntegerType 8, BuiltinIntegerType 4]
      (APInt 8 15) 8 = Inr (APInt 4 15, True) \<and>
   \<not> fst (getTypeSignedness UToSCheckedTrunc) \<and>
   \<not> spec_conversionOverflow (fst (getTypeSignedness UToSCheckedTrunc)) 8 4 (APInt 8 15)"
  by (simp add: checkedConversion_def spec_conversionOverflow_def getTypeSignedness_def
        trunc_def zext_def sext_def mkAPInt_def getSExtValue_def isNegative_def)

text \<open>
  C1, as amended. For each of the four checked truncations of a literal with
  type arguments of widths \<open>s\<close> and \<open>d\<close> (so in particular for \<open>d \<le> s\<close>), the
  overflow flag is computed by a truncation, an extension back to width \<open>s\<close> and a
  comparison with the input, and overflow holds if and only if the two differ:
  \<open>SToSCheckedTrunc\<close> truncates to \<open>d\<close> bits and sign-extends;
  \<open>UToUCheckedTrunc\<close> and \<open>SToUCheckedTrunc\<close> truncate to \<open>d\<close> bits and
  zero-extend (the extension follows the destination's signedness);
  \<open>UToSCheckedTrunc\<close> truncates to \<open>d - 1\<close> bits and zero-extends. On overflow
  there is no fold, and one diagnostic if diagnostics are enabled; otherwise the
  fold is the tuple of the low \<open>d\<close> bits and of the overflow bit 0.
\<close>

theorem checked_trunc_overflow:
  assumes "getIntrinsicID BI = not_intrinsic"
    and "getID BI = SToSCheckedTrunc \<or> getID BI = UToUCheckedTrunc
         \<or> getID BI = SToUCheckedTrunc \<or> getID BI = UToSCheckedTrunc"
    and "getTypes BI = [BuiltinIntegerType s, BuiltinIntegerType d]"
    and "getTy BI = TupleType [BuiltinIntegerType d, BuiltinIntegerType 1]"
  shows "constantFoldBuiltin astCtx fp BI [IntegerLiteralInst xty x] st =
     (if (if getID BI = SToSCheckedTrunc then sext s (trunc d x)
          else if getID BI = UToSCheckedTrunc then zext s (trunc (d - 1) x)
          else zext s (trunc d x)) \<noteq> x
      then Inr (None,
                if ResultsInError st = None then st
                else diagnoseError (conversionOverflowDiag (getID BI) (getLoc BI) s x) st)
      else Inr (Some (TupleInst (getTy BI)
                        [IntegerLiteralInst (BuiltinIntegerType d) (trunc d x),
                         IntegerLiteralInst (BuiltinIntegerType 1) (APInt 1 0)]), st))"
  unfolding dispatch_conversion [OF assms(1,2)] constantFoldAndCheckIntegerConversions_def
  using assms(2)
  by (auto simp: assms(3) checkedConversion_trunc [OF assms(2)] overflow_tuple [OF assms(4)]
        Let_def)

theorem checked_trunc_overflow_witness:
  "constantFoldBuiltin (ASTContext None) inertFloatOps
     (plainBuiltin UToUCheckedTrunc (TupleType [BuiltinIntegerType 4, BuiltinIntegerType 1])
        [BuiltinIntegerType 8, BuiltinIntegerType 4])
     [intLit 8 255] \<lparr>ResultsInError = Some False, Diags = []\<rparr>
   = Inr (None, \<lparr>ResultsInError = Some True,
                 Diags = [integer_conversion_overflow_builtin_types]\<rparr>) \<and>
   constantFoldBuiltin (ASTContext None) inertFloatOps
     (plainBuiltin SToSCheckedTrunc (TupleType [BuiltinIntegerType 4, BuiltinIntegerType 1])
        [BuiltinIntegerType 8, BuiltinIntegerType 4])
     [intLit 8 255] \<lparr>ResultsInError = Some False, Diags = []\<rparr>
   = Inr (Some (TupleInst (TupleType [BuiltinIntegerType 4, BuiltinIntegerType 1])
                  [intLit 4 15, intLit 1 0]),
          \<lparr>ResultsInError = Some False, Diags = []\<rparr>)"
  using checked_trunc_overflow [where BI =
        "plainBuiltin UToUCheckedTrunc (TupleType [BuiltinIntegerType 4, BuiltinIntegerType 1])
           [BuiltinIntegerType 8, BuiltinIntegerType 4]"
      and s = 8 and d = 4 and x = "APInt 8 255" and astCtx = "ASTContext None"
      and fp = inertFloatOps and xty = "BuiltinIntegerType 8"
      and st = "\<lparr>ResultsInError = Some False, Diags = []\<rparr>"]
    checked_trunc_overflow [where BI =
        "plainBuiltin SToSCheckedTrunc (TupleType [BuiltinIntegerType 4, BuiltinIntegerType 1])
           [BuiltinIntegerType 8, BuiltinIntegerType 4]"
      and s = 8 and d = 4 and x = "APInt 8 255" and astCtx = "ASTContext None"
      and fp = inertFloatOps and xty = "BuiltinIntegerType 8"
      and st = "\<lparr>ResultsInError = Some False, Diags = []\<rparr>"]
  by (simp add: plainBuiltin_def wellFormed_def intLit_def trunc_def zext_def sext_def
        mkAPInt_def getSExtValue_def isNegative_def conversionOverflowDiag_def
        getTypeSignedness_def userTypesKnown_def diagnoseError_def diagnose_def)

section \<open>Float truncation\<close>

lemma maybeExplicitFPCons_returns:
  assumes "getID BI = FPTrunc \<or> getID BI = IntToFPWithOverflow"
  shows "\<exists>b. maybeExplicitFPCons astCtx BI = Inr b"
  using assms
  by (auto simp: maybeExplicitFPCons_def split: option.splits Expr.splits)

lemma getFPSemantics_returns:
  assumes "k = IEEE32 \<or> k = IEEE64 \<or> k = IEEE80"
  shows "\<exists>sem. getFPSemantics k = Inr sem"
  using assms by (auto simp: getFPSemantics_def)

lemma isLossyUnderflow_returns:
  assumes "sk = IEEE32 \<or> sk = IEEE64 \<or> sk = IEEE80"
    and "dk = IEEE32 \<or> dk = IEEE64 \<or> dk = IEEE80"
  shows "\<exists>b. isLossyUnderflow fp v sk dk = Inr b"
proof -
  obtain ss where s: "getFPSemantics sk = Inr ss"
    using getFPSemantics_returns [OF assms(1)] by blast
  obtain ds where d: "getFPSemantics dk = Inr ds"
    using getFPSemantics_returns [OF assms(2)] by blast
  show ?thesis by (auto simp: isLossyUnderflow_def s d)
qed

text \<open>
  C7. Let an \<open>FPTrunc\<close> builtin between two of the three IEEE formats have a
  float literal operand, and let the conversion of its value to the destination
  format give a status and a converted value. The folder returns, and it returns
  no fold exactly when the status includes invalid-op, div-by-zero or underflow,
  or the converted value is denormal; in every other case, so for the statuses
  OK, inexact and overflow with a converted value that is not denormal, it returns
  the float literal of the converted value. Whether a warning is emitted does not
  enter the decision.
\<close>

theorem foldFPTrunc_decision:
  assumes "getIntrinsicID BI = not_intrinsic" and "getID BI = FPTrunc"
    and "getTypes BI = [BuiltinFloatType sk, BuiltinFloatType dk]"
    and "sk = IEEE32 \<or> sk = IEEE64 \<or> sk = IEEE80"
    and "dk = IEEE32 \<or> dk = IEEE64 \<or> dk = IEEE80"
    and "convert fp v dk = (status, truncVal)"
  shows "(\<exists>st'. constantFoldBuiltin astCtx fp BI [FloatLiteralInst floc fty v] st =
           Inr (if opInvalidOp \<in> status \<or> opDivByZero \<in> status \<or> opUnderflow \<in> status
                   \<or> isDenormal fp truncVal
                then None
                else Some (FloatLiteralInst (getLoc BI) (getTy BI) truncVal), st')) \<and>
         (status \<subseteq> {opInexact, opOverflow} \<and> \<not> isDenormal fp truncVal \<longrightarrow>
            (\<exists>st'. constantFoldBuiltin astCtx fp BI [FloatLiteralInst floc fty v] st =
               Inr (Some (FloatLiteralInst (getLoc BI) (getTy BI) truncVal), st')))"
proof -
  obtain e where e: "maybeExplicitFPCons astCtx BI = Inr e"
    using maybeExplicitFPCons_returns [of BI astCtx] assms(2) by blast
  obtain t where t: "isLossyUnderflow fp v sk dk = Inr t"
    using isLossyUnderflow_returns [OF assms(4,5)] by blast
  have main: "\<exists>st'. constantFoldBuiltin astCtx fp BI [FloatLiteralInst floc fty v] st =
           Inr (if opInvalidOp \<in> status \<or> opDivByZero \<in> status \<or> opUnderflow \<in> status
                   \<or> isDenormal fp truncVal
                then None
                else Some (FloatLiteralInst (getLoc BI) (getTy BI) truncVal), st')"
    unfolding dispatch_fptrunc [OF assms(1,2)] foldFPTrunc_def
    by (simp add: assms(2,3,6) e t Let_def)
  have "status \<subseteq> {opInexact, opOverflow} \<Longrightarrow>
        \<not> (opInvalidOp \<in> status \<or> opDivByZero \<in> status \<or> opUnderflow \<in> status)"
    by auto
  with main show ?thesis by auto
qed

theorem foldFPTrunc_decision_witness:
  "(\<exists>st'. constantFoldBuiltin (ASTContext None) inertFloatOps
      (plainBuiltin FPTrunc (BuiltinFloatType IEEE32)
         [BuiltinFloatType IEEE64, BuiltinFloatType IEEE32])
      [FloatLiteralInst (SILLocation True None) (BuiltinFloatType IEEE64) (APFloat IEEE64 7)]
      \<lparr>ResultsInError = Some False, Diags = []\<rparr>
    = Inr (Some (FloatLiteralInst (SILLocation True None) (BuiltinFloatType IEEE32)
                   (APFloat IEEE32 7)), st')) \<and>
   (\<exists>st'. constantFoldBuiltin (ASTContext None)
      (inertFloatOps\<lparr>convert := (\<lambda>a k. ({opUnderflow, opInexact}, APFloat k 0))\<rparr>)
      (plainBuiltin FPTrunc (BuiltinFloatType IEEE32)
         [BuiltinFloatType IEEE64, BuiltinFloatType IEEE32])
      [FloatLiteralInst (SILLocation True None) (BuiltinFloatType IEEE64) (APFloat IEEE64 7)]
      \<lparr>ResultsInError = Some False, Diags = []\<rparr>
    = Inr (None, st'))"
  using foldFPTrunc_decision [where BI =
        "plainBuiltin FPTrunc (BuiltinFloatType IEEE32)
           [BuiltinFloatType IEEE64, BuiltinFloatType IEEE32]"
      and sk = IEEE64 and dk = IEEE32 and fp = inertFloatOps and v = "APFloat IEEE64 7"
      and status = "{}" and truncVal = "APFloat IEEE32 7" and astCtx = "ASTContext None"
      and floc = "SILLocation True None" and fty = "BuiltinFloatType IEEE64"
      and st = "\<lparr>ResultsInError = Some False, Diags = []\<rparr>"]
    foldFPTrunc_decision [where BI =
        "plainBuiltin FPTrunc (BuiltinFloatType IEEE32)
           [BuiltinFloatType IEEE64, BuiltinFloatType IEEE32]"
      and sk = IEEE64 and dk = IEEE32
      and fp = "inertFloatOps\<lparr>convert := (\<lambda>a k. ({opUnderflow, opInexact}, APFloat k 0))\<rparr>"
      and v = "APFloat IEEE64 7"
      and status = "{opUnderflow, opInexact}" and truncVal = "APFloat IEEE32 0"
      and astCtx = "ASTContext None"
      and floc = "SILLocation True None" and fty = "BuiltinFloatType IEEE64"
      and st = "\<lparr>ResultsInError = Some False, Diags = []\<rparr>"]
  by (simp add: plainBuiltin_def inertFloatOps_def)

section \<open>The explicit-initializer test\<close>

text \<open>
  The claim as the specification states it fails where the location gives no
  call expression at all: the code answers yes, to err on the safer side, and the
  specification's wording answers no.
\<close>

theorem maybeExplicitFPCons_counterexample:
  "maybeExplicitFPCons (ASTContext (Some ''Double''))
     (plainBuiltin FPTrunc (BuiltinFloatType IEEE32)
        [BuiltinFloatType IEEE64, BuiltinFloatType IEEE32])
     = Inr True \<and>
   \<not> spec_maybeExplicit (ASTContext (Some ''Double''))
       (getLoc (plainBuiltin FPTrunc (BuiltinFloatType IEEE32)
          [BuiltinFloatType IEEE64, BuiltinFloatType IEEE32]))"
  by (simp add: maybeExplicitFPCons_def spec_maybeExplicit_def plainBuiltin_def)

text \<open>
  C8, as amended. For an \<open>FPTrunc\<close> or \<open>IntToFPWithOverflow\<close> builtin the test
  \<open>maybeExplicitFPCons\<close> returns, and it holds if and only if the location does
  not resolve to a call expression whose callee is a constructor reference, or
  that call is not marked implicit, or the type it constructs is the standard
  library's \<open>Double\<close>.
\<close>

theorem maybeExplicitFPCons_cases:
  assumes "getID BI = FPTrunc \<or> getID BI = IntToFPWithOverflow"
  shows "maybeExplicitFPCons astCtx BI =
     Inr (case getAsCallExpr (getLoc BI) of
            Some (ApplyExpr k implicit fn arg ty) \<Rightarrow>
              \<not> isConstructorRefCallExpr fn \<or> \<not> implicit
              \<or> (getAnyNominal ty \<noteq> None \<and> getAnyNominal ty = getDoubleDecl astCtx)
          | _ \<Rightarrow> True)"
  using assms
  by (auto simp: maybeExplicitFPCons_def split: option.splits Expr.splits)

theorem maybeExplicitFPCons_cases_witness:
  "maybeExplicitFPCons (ASTContext (Some ''Double''))
     ((plainBuiltin FPTrunc (BuiltinFloatType IEEE32)
         [BuiltinFloatType IEEE64, BuiltinFloatType IEEE32])
        \<lparr>getLoc := SILLocation True (Some (ApplyExpr CallExprKind True
            (ApplyExpr ConstructorRefCallExprKind False (OtherExpr (NominalType ''init''))
               (OtherExpr (NominalType ''Float'')) (NominalType ''init''))
            (TupleExpr [FloatLiteralExpr False ''1.5'' (NominalType ''Double'')]
               (ASTTupleType [NominalType ''Double'']))
            (NominalType ''Float'')))\<rparr>)
   = Inr False"
  using maybeExplicitFPCons_cases [where BI =
     "(plainBuiltin FPTrunc (BuiltinFloatType IEEE32)
         [BuiltinFloatType IEEE64, BuiltinFloatType IEEE32])
        \<lparr>getLoc := SILLocation True (Some (ApplyExpr CallExprKind True
            (ApplyExpr ConstructorRefCallExprKind False (OtherExpr (NominalType ''init''))
               (OtherExpr (NominalType ''Float'')) (NominalType ''init''))
            (TupleExpr [FloatLiteralExpr False ''1.5'' (NominalType ''Double'')]
               (ASTTupleType [NominalType ''Double'']))
            (NominalType ''Float'')))\<rparr>"
     and astCtx = "ASTContext (Some ''Double'')"]
  by (simp add: plainBuiltin_def)

end
